theory Spec2Isabelle
  imports Main "HOL-Library.Sublist"
begin

section \<open>JavaScript values\<close>

text \<open>
  A JavaScript string is a sequence of UTF-16 code units; the model keeps the code units
  as natural numbers, so that \<open>btoa\<close> can refuse a unit above 255 and the regular
  expression classes (\<open>\d\<close>, \<open>\s\<close>, \<open>\b\<close>) read the units the engine reads.
  Texts the SDK itself writes (reasons, storage keys, error names) are ASCII and are
  kept as HOL strings. Numbers that count are \<open>nat\<close>, instants and durations in
  milliseconds are \<open>int\<close>.
\<close>

type_synonym jsstring = "nat list"

definition js :: "string \<Rightarrow> jsstring" where
  "js s = map of_char s"

text \<open>The decimal text of a non-negative integer, as a template literal prints it.\<close>

fun decimal :: "nat \<Rightarrow> string" where
  "decimal n =
     (if n < 10 then [char_of (48 + n)]
      else decimal (n div 10) @ [char_of (48 + n mod 10)])"

declare decimal.simps [simp del]

text \<open>\<open>String.prototype.includes\<close>: the pattern occurs at some position.\<close>

fun str_includes :: "'a list \<Rightarrow> 'a list \<Rightarrow> bool" where
  "str_includes [] p = (p = [])"
| "str_includes (x # xs) p = (prefix p (x # xs) \<or> str_includes xs p)"

text \<open>A thrown \<open>Error\<close>: its \<open>name\<close> and its \<open>message\<close>.\<close>

record JsError =
  err_name :: string
  err_message :: string

text \<open>
  The values a report can carry in \<open>context\<close>, \<open>user\<close> and breadcrumb data. The type
  is a tree: an object graph with a cycle is not a value of it.
\<close>

datatype json =
    JUndefined
  | JNull
  | JBool bool
  | JNum int
  | JStr jsstring
  | JArr "json list"
  | JObj "(jsstring \<times> json) list"

fun truthy :: "json \<Rightarrow> bool" where
  "truthy JUndefined = False"
| "truthy JNull = False"
| "truthy (JBool b) = b"
| "truthy (JNum n) = (n \<noteq> 0)"
| "truthy (JStr s) = (s \<noteq> [])"
| "truthy (JArr xs) = True"
| "truthy (JObj kvs) = True"

record Breadcrumb =
  bc_message :: jsstring
  bc_category :: jsstring
  bc_level :: jsstring
  bc_timestamp :: jsstring
  bc_data :: json

text \<open>
  \<open>ErrorData\<close> of \<open>types/index.ts\<close>. An optional field that is absent holds
  \<open>JUndefined\<close> (\<open>None\<close> for the breadcrumb list). The fields no stage of the pipeline
  reads (\<open>http_status\<close>, \<open>request\<close>, \<open>browser\<close>, \<open>commitHash\<close>, \<open>version\<close>,
  \<open>sessionId\<close>, \<open>customData\<close>) travel together in \<open>ed_other\<close>.
\<close>

record ErrorData =
  ed_message :: jsstring
  ed_exception_class :: jsstring
  ed_stack_trace :: jsstring
  ed_file :: jsstring
  ed_line :: nat
  ed_project :: jsstring
  ed_environment :: jsstring
  ed_timestamp :: jsstring
  ed_context :: json
  ed_breadcrumbs :: "Breadcrumb list option"
  ed_user :: json
  ed_other :: json

section \<open>RateLimiter.ts\<close>

record RateLimiterConfig =
  maxRequests :: nat
  windowMs :: int
  duplicateErrorWindow :: int

record RateLimitInfo =
  rli_allowed :: bool
  rli_remaining :: int
  rli_resetTime :: int
  rli_reason :: "string option"

record RateLimiter =
  rl_config :: RateLimiterConfig
  rl_requests :: "int list"
  rl_errorHashes :: "string \<rightharpoonup> int"

subsection \<open>The fingerprint\<close>

definition b64_alphabet :: string where
  "b64_alphabet = ''ABCDEFGHIJKLMNOPQRSTUVWXYZabcdefghijklmnopqrstuvwxyz0123456789+/''"

definition b64c :: "nat \<Rightarrow> char" where
  "b64c n = b64_alphabet ! (n mod 64)"

fun b64_encode :: "nat list \<Rightarrow> string" where
  "b64_encode [] = []"
| "b64_encode [a] = [b64c (a div 4), b64c ((a mod 4) * 16), CHR ''='', CHR ''='']"
| "b64_encode [a, b] =
     [b64c (a div 4), b64c ((a mod 4) * 16 + b div 16), b64c ((b mod 16) * 4), CHR ''='']"
| "b64_encode (a # b # c # rest) =
     [b64c (a div 4), b64c ((a mod 4) * 16 + b div 16),
      b64c ((b mod 16) * 4 + c div 64), b64c (c mod 64)] @ b64_encode rest"

text \<open>\<open>btoa\<close> throws \<open>InvalidCharacterError\<close> on a code unit above 255.\<close>

definition btoa :: "jsstring \<Rightarrow> JsError + string" where
  "btoa s =
     (if list_ex (\<lambda>c. 255 < c) s
      then Inl \<lparr>err_name = ''InvalidCharacterError'', err_message = ''Invalid character''\<rparr>
      else Inr (b64_encode s))"

definition alnum :: "char \<Rightarrow> bool" where
  "alnum c = (let n = (of_char c :: nat) in
     (97 \<le> n \<and> n \<le> 122) \<or> (65 \<le> n \<and> n \<le> 90) \<or> (48 \<le> n \<and> n \<le> 57))"

text \<open>The key \<open>`${message}-${file}-${line}`\<close> of \<open>generateErrorHash\<close>.\<close>

definition hashKey :: "ErrorData \<Rightarrow> jsstring" where
  "hashKey errorData =
     ed_message errorData @ js ''-'' @ ed_file errorData @ js ''-''
       @ js (decimal (ed_line errorData))"

definition generateErrorHash :: "ErrorData \<Rightarrow> JsError + string" where
  "generateErrorHash errorData =
     (case btoa (hashKey errorData) of
        Inl e \<Rightarrow> Inl e
      | Inr b \<Rightarrow> Inr (take 32 (filter alnum b)))"

subsection \<open>Admission and marking\<close>

definition removeExpiredRequests :: "int \<Rightarrow> RateLimiter \<Rightarrow> RateLimiter" where
  "removeExpiredRequests now rl =
     (let cutoff = now - windowMs (rl_config rl)
      in rl\<lparr>rl_requests := filter (\<lambda>timestamp. timestamp > cutoff) (rl_requests rl)\<rparr>)"

definition getNextResetTime :: "int \<Rightarrow> RateLimiter \<Rightarrow> int" where
  "getNextResetTime now rl =
     (case rl_requests rl of
        [] \<Rightarrow> now + windowMs (rl_config rl)
      | t # ts \<Rightarrow> fold min ts t + windowMs (rl_config rl))"

text \<open>
  \<open>lastSeen && (now - lastSeen) < duplicateErrorWindow\<close>: an absent entry and the
  instant 0 are both falsy.
\<close>

definition isDuplicate :: "int \<Rightarrow> int option \<Rightarrow> int \<Rightarrow> bool" where
  "isDuplicate now lastSeen window =
     (case lastSeen of
        None \<Rightarrow> False
      | Some t \<Rightarrow> t \<noteq> 0 \<and> now - t < window)"

definition RateLimiter_canSendError ::
  "int \<Rightarrow> ErrorData \<Rightarrow> RateLimiter \<Rightarrow> (JsError + RateLimitInfo) \<times> RateLimiter" where
  "RateLimiter_canSendError now errorData rl =
     (let rl1 = removeExpiredRequests now rl in
      if length (rl_requests rl1) \<ge> maxRequests (rl_config rl1) then
        (Inr \<lparr>rli_allowed = False, rli_remaining = 0,
              rli_resetTime = getNextResetTime now rl1,
              rli_reason = Some ''Rate limit exceeded''\<rparr>, rl1)
      else
        (case generateErrorHash errorData of
           Inl e \<Rightarrow> (Inl e, rl1)
         | Inr errorHash \<Rightarrow>
             if isDuplicate now (rl_errorHashes rl1 errorHash)
                  (duplicateErrorWindow (rl_config rl1)) then
               (Inr \<lparr>rli_allowed = False,
                     rli_remaining =
                       int (maxRequests (rl_config rl1)) - int (length (rl_requests rl1)),
                     rli_resetTime = getNextResetTime now rl1,
                     rli_reason = Some ''Duplicate error''\<rparr>, rl1)
             else
               (Inr \<lparr>rli_allowed = True,
                     rli_remaining =
                       int (maxRequests (rl_config rl1)) - int (length (rl_requests rl1)) - 1,
                     rli_resetTime = getNextResetTime now rl1,
                     rli_reason = None\<rparr>, rl1)))"

text \<open>
  \<open>markErrorSent\<close> pushes the instant first; the throw of \<open>btoa\<close> then leaves the
  push in place and the map as it was.
\<close>

definition markErrorSent ::
  "int \<Rightarrow> ErrorData \<Rightarrow> RateLimiter \<Rightarrow> (JsError + unit) \<times> RateLimiter" where
  "markErrorSent now errorData rl =
     (let rl1 = rl\<lparr>rl_requests := rl_requests rl @ [now]\<rparr> in
      case generateErrorHash errorData of
        Inl e \<Rightarrow> (Inl e, rl1)
      | Inr errorHash \<Rightarrow>
          (Inr (), rl1\<lparr>rl_errorHashes := (rl_errorHashes rl1)(errorHash \<mapsto> now)\<rparr>))"

definition RateLimiter_destroy :: "RateLimiter \<Rightarrow> RateLimiter" where
  "RateLimiter_destroy rl = rl\<lparr>rl_requests := [], rl_errorHashes := Map.empty\<rparr>"

section \<open>The platform: clock and durable store\<close>

text \<open>
  One reading of the clock serves one synchronous call: \<open>Date.now()\<close>, and the day and
  month keys and the next local midnight that \<open>new Date()\<close> yields at that instant.
\<close>

record Clock =
  clk_now :: int
  clk_dateKey :: string
  clk_monthKey :: string
  clk_tomorrow :: int

record QuotaData =
  qd_dailyCount :: nat
  qd_monthlyCount :: nat
  qd_burstCounts :: "int list"
  qd_lastResetDate :: string
  qd_lastResetMonth :: string

record OfflineQueueItem =
  qi_id :: string
  qi_errorData :: ErrorData
  qi_timestamp :: int
  qi_attempts :: nat

text \<open>
  \<open>localStorage\<close> holds JSON texts; the model keeps the value a text parses to, or
  \<open>Unparsable\<close> for a text on which \<open>JSON.parse\<close> throws. \<open>ls_available\<close> is
  \<open>typeof window !== 'undefined' && window.localStorage\<close>; \<open>ls_accepts\<close> is
  false when \<open>setItem\<close> throws (quota exceeded, storage disabled).
\<close>

datatype stored =
    StoredQuota QuotaData
  | StoredQueue "OfflineQueueItem list"
  | Unparsable

record LocalStorage =
  ls_available :: bool
  ls_accepts :: bool
  ls_items :: "string \<rightharpoonup> stored"

definition setItem :: "string \<Rightarrow> stored \<Rightarrow> LocalStorage \<Rightarrow> LocalStorage" where
  "setItem k v ls = (if ls_accepts ls then ls\<lparr>ls_items := (ls_items ls)(k \<mapsto> v)\<rparr> else ls)"

section \<open>QuotaManager.ts\<close>

record QuotaConfig =
  dailyLimit :: nat
  monthlyLimit :: nat
  payloadSizeLimit :: nat
  burstLimit :: nat
  burstWindowMs :: int

record QuotaStats =
  dailyUsage :: nat
  monthlyUsage :: nat
  dailyRemaining :: nat
  monthlyRemaining :: nat
  burstUsage :: nat
  burstRemaining :: nat
  isOverQuota :: bool
  nextResetTime :: int

record QuotaResult =
  qr_allowed :: bool
  qr_reason :: "string option"
  qr_quotaStats :: QuotaStats

record QuotaManager =
  qm_config :: QuotaConfig
  qm_dailyCount :: nat
  qm_monthlyCount :: nat
  qm_burstCounts :: "int list"
  qm_lastResetDate :: string
  qm_lastResetMonth :: string

definition quotaStorageKey :: string where
  "quotaStorageKey = ''error-explorer-quota''"

definition cleanupBurstCounts :: "Clock \<Rightarrow> QuotaManager \<Rightarrow> QuotaManager" where
  "cleanupBurstCounts clk qm =
     (let cutoff = clk_now clk - burstWindowMs (qm_config qm)
      in qm\<lparr>qm_burstCounts := filter (\<lambda>timestamp. timestamp > cutoff) (qm_burstCounts qm)\<rparr>)"

definition cleanupOldData :: "Clock \<Rightarrow> QuotaManager \<Rightarrow> QuotaManager" where
  "cleanupOldData clk qm =
     (let qm1 = (if clk_dateKey clk \<noteq> qm_lastResetDate qm
                 then qm\<lparr>qm_dailyCount := 0, qm_lastResetDate := clk_dateKey clk\<rparr>
                 else qm);
          qm2 = (if clk_monthKey clk \<noteq> qm_lastResetMonth qm1
                 then qm1\<lparr>qm_monthlyCount := 0, qm_lastResetMonth := clk_monthKey clk\<rparr>
                 else qm1)
      in cleanupBurstCounts clk qm2)"

definition QuotaManager_getStats :: "Clock \<Rightarrow> QuotaManager \<Rightarrow> QuotaStats \<times> QuotaManager" where
  "QuotaManager_getStats clk qm =
     (let qm1 = cleanupOldData clk qm; c = qm_config qm1 in
      (\<lparr>dailyUsage = qm_dailyCount qm1,
        monthlyUsage = qm_monthlyCount qm1,
        dailyRemaining = dailyLimit c - qm_dailyCount qm1,
        monthlyRemaining = monthlyLimit c - qm_monthlyCount qm1,
        burstUsage = length (qm_burstCounts qm1),
        burstRemaining = burstLimit c - length (qm_burstCounts qm1),
        isOverQuota = (qm_dailyCount qm1 \<ge> dailyLimit c
                        \<or> qm_monthlyCount qm1 \<ge> monthlyLimit c
                        \<or> length (qm_burstCounts qm1) \<ge> burstLimit c),
        nextResetTime = clk_tomorrow clk\<rparr>, qm1))"

definition payloadReason :: "nat \<Rightarrow> nat \<Rightarrow> string" where
  "payloadReason payloadSize limit =
     ''Payload size ('' @ decimal payloadSize @ '') exceeds limit ('' @ decimal limit @ '')''"

definition QuotaManager_canSendError ::
  "Clock \<Rightarrow> nat \<Rightarrow> QuotaManager \<Rightarrow> QuotaResult \<times> QuotaManager" where
  "QuotaManager_canSendError clk payloadSize qm =
     (let qm1 = cleanupOldData clk qm;
          (stats, qm2) = QuotaManager_getStats clk qm1 in
      if payloadSize > payloadSizeLimit (qm_config qm2) then
        (\<lparr>qr_allowed = False,
          qr_reason = Some (payloadReason payloadSize (payloadSizeLimit (qm_config qm2))),
          qr_quotaStats = stats\<rparr>, qm2)
      else
        (let qm3 = cleanupBurstCounts clk qm2 in
         if length (qm_burstCounts qm3) \<ge> burstLimit (qm_config qm3) then
           (\<lparr>qr_allowed = False, qr_reason = Some ''Burst limit exceeded'',
             qr_quotaStats = stats\<rparr>, qm3)
         else if qm_dailyCount qm3 \<ge> dailyLimit (qm_config qm3) then
           (\<lparr>qr_allowed = False, qr_reason = Some ''Daily quota exceeded'',
             qr_quotaStats = stats\<rparr>, qm3)
         else if qm_monthlyCount qm3 \<ge> monthlyLimit (qm_config qm3) then
           (\<lparr>qr_allowed = False, qr_reason = Some ''Monthly quota exceeded'',
             qr_quotaStats = stats\<rparr>, qm3)
         else
           (\<lparr>qr_allowed = True, qr_reason = None, qr_quotaStats = stats\<rparr>, qm3)))"

definition QuotaManager_saveToStorage :: "QuotaManager \<Rightarrow> LocalStorage \<Rightarrow> LocalStorage" where
  "QuotaManager_saveToStorage qm ls =
     (if \<not> ls_available ls then ls
      else setItem quotaStorageKey
             (StoredQuota \<lparr>qd_dailyCount = qm_dailyCount qm,
                           qd_monthlyCount = qm_monthlyCount qm,
                           qd_burstCounts = qm_burstCounts qm,
                           qd_lastResetDate = qm_lastResetDate qm,
                           qd_lastResetMonth = qm_lastResetMonth qm\<rparr>) ls)"

definition recordUsage ::
  "Clock \<Rightarrow> nat \<Rightarrow> QuotaManager \<Rightarrow> LocalStorage \<Rightarrow> QuotaManager \<times> LocalStorage" where
  "recordUsage clk payloadSize qm ls =
     (let qm1 = cleanupOldData clk qm;
          qm2 = qm1\<lparr>qm_dailyCount := qm_dailyCount qm1 + 1,
                     qm_monthlyCount := qm_monthlyCount qm1 + 1,
                     qm_burstCounts := qm_burstCounts qm1 @ [clk_now clk]\<rparr>
      in (qm2, QuotaManager_saveToStorage qm2 ls))"

definition resetQuotas :: "QuotaManager \<Rightarrow> LocalStorage \<Rightarrow> QuotaManager \<times> LocalStorage" where
  "resetQuotas qm ls =
     (let qm1 = qm\<lparr>qm_dailyCount := 0, qm_monthlyCount := 0, qm_burstCounts := []\<rparr>
      in (qm1, QuotaManager_saveToStorage qm1 ls))"

definition QuotaManager_destroy ::
  "QuotaManager \<Rightarrow> LocalStorage \<Rightarrow> QuotaManager \<times> LocalStorage" where
  "QuotaManager_destroy qm ls = resetQuotas qm ls"

text \<open>
  \<open>loadFromStorage\<close>: \<open>parsed.x || fallback\<close> takes the fallback for a field that is
  absent, zero or empty. A stored array has none of the fields; a text that does not
  parse throws, and the catch leaves the manager as it was.
\<close>

definition QuotaManager_loadFromStorage :: "QuotaManager \<Rightarrow> LocalStorage \<Rightarrow> QuotaManager" where
  "QuotaManager_loadFromStorage qm ls =
     (if \<not> ls_available ls then qm
      else case ls_items ls quotaStorageKey of
        None \<Rightarrow> qm
      | Some Unparsable \<Rightarrow> qm
      | Some (StoredQueue q) \<Rightarrow>
          qm\<lparr>qm_dailyCount := 0, qm_monthlyCount := 0, qm_burstCounts := []\<rparr>
      | Some (StoredQuota d) \<Rightarrow>
          qm\<lparr>qm_dailyCount := qd_dailyCount d,
              qm_monthlyCount := qd_monthlyCount d,
              qm_burstCounts := qd_burstCounts d,
              qm_lastResetDate :=
                (if qd_lastResetDate d = [] then qm_lastResetDate qm else qd_lastResetDate d),
              qm_lastResetMonth :=
                (if qd_lastResetMonth d = [] then qm_lastResetMonth qm
                 else qd_lastResetMonth d)\<rparr>)"

text \<open>The constructor: counters at zero, today's keys, then the load.\<close>

definition QuotaManager_new :: "QuotaConfig \<Rightarrow> Clock \<Rightarrow> LocalStorage \<Rightarrow> QuotaManager" where
  "QuotaManager_new config clk ls =
     QuotaManager_loadFromStorage
       \<lparr>qm_config = config, qm_dailyCount = 0, qm_monthlyCount = 0, qm_burstCounts = [],
        qm_lastResetDate = clk_dateKey clk, qm_lastResetMonth = clk_monthKey clk\<rparr> ls"

section \<open>The transport\<close>

text \<open>
  The world a capture runs in: the webhook, the durable store and the source of random
  identifiers. \<open>w_posts\<close> logs every HTTP POST in order; \<open>w_respond k\<close> is what the
  \<open>k\<close>-th POST meets: \<open>None\<close> for a response the client accepts, \<open>Some e\<close> for the
  error it throws (a status of 400 or more, a timeout, a network failure, or a failure
  of the compression step before it). \<open>w_random k\<close> is the \<open>k\<close>-th identifier that
  \<open>generateId\<close> draws.
\<close>

record BatchedErrorData =
  bd_errors :: "ErrorData list"
  bd_batchId :: nat
  bd_timestamp :: int
  bd_count :: nat

datatype payload = Single ErrorData | Batch BatchedErrorData

record World =
  w_posts :: "payload list"
  w_respond :: "nat \<Rightarrow> JsError option"
  w_storage :: LocalStorage
  w_random :: "nat \<Rightarrow> string"
  w_drawn :: nat

text \<open>
  \<open>sendWithCompression\<close>: serialise, compress, POST. It resolves to the response, a
  defined value (\<open>Some ()\<close>; \<open>None\<close> stands for \<open>undefined\<close>).
\<close>

definition sendWithCompression :: "payload \<Rightarrow> World \<Rightarrow> (JsError + unit option) \<times> World" where
  "sendWithCompression data w =
     (let w1 = w\<lparr>w_posts := w_posts w @ [data]\<rparr> in
      case w_respond w (length (w_posts w)) of
        None \<Rightarrow> (Inr (Some ()), w1)
      | Some e \<Rightarrow> (Inl e, w1))"

section \<open>RetryManager.ts\<close>

text \<open>
  The delay between attempts (\<open>calculateDelay\<close>, \<open>sleep\<close>) and \<open>totalTime\<close> are
  timing only: they suspend the loop and change no state, and are not modelled.
\<close>

record RetryConfig =
  rc_maxRetries :: nat
  rc_initialDelay :: int
  rc_maxDelay :: int
  rc_backoffMultiplier :: int
  rc_jitter :: bool

record 'a RetryResult =
  rr_success :: bool
  rr_result :: "'a option"
  rr_error :: "JsError option"
  rr_attempts :: nat

definition shouldNotRetry :: "JsError \<Rightarrow> bool" where
  "shouldNotRetry error =
     (if str_includes (err_message error) ''400'' \<or> str_includes (err_message error) ''401''
         \<or> str_includes (err_message error) ''403'' \<or> str_includes (err_message error) ''404''
      then True
      else if err_name error = ''ValidationError'' \<or> err_name error = ''TypeError''
      then True
      else False)"

text \<open>The result after the loop: \<open>lastError || new Error('Unknown error')\<close>.\<close>

definition retryFailure :: "RetryConfig \<Rightarrow> JsError option \<Rightarrow> 'a RetryResult" where
  "retryFailure config lastError =
     \<lparr>rr_success = False, rr_result = None,
      rr_error = Some (case lastError of
                         None \<Rightarrow> \<lparr>err_name = ''Error'', err_message = ''Unknown error''\<rparr>
                       | Some e \<Rightarrow> e),
      rr_attempts = rc_maxRetries config + 1\<rparr>"

text \<open>
  The \<open>for\<close> loop of \<open>executeWithRetry\<close>, from \<open>attempt\<close> on. An operation is a
  state transformer on the world that returns or throws.
\<close>

function retryLoop ::
  "RetryConfig \<Rightarrow> ('w \<Rightarrow> (JsError + 'a option) \<times> 'w) \<Rightarrow> nat \<Rightarrow> JsError option \<Rightarrow> 'w
     \<Rightarrow> 'a RetryResult \<times> 'w" where
  "retryLoop config operation attempt lastError w =
     (if attempt \<le> rc_maxRetries config then
        (case operation w of
           (Inr result, w1) \<Rightarrow>
             (\<lparr>rr_success = True, rr_result = result, rr_error = None,
               rr_attempts = attempt + 1\<rparr>, w1)
         | (Inl error, w1) \<Rightarrow>
             if attempt = rc_maxRetries config then (retryFailure config (Some error), w1)
             else if shouldNotRetry error then (retryFailure config (Some error), w1)
             else retryLoop config operation (attempt + 1) (Some error) w1)
      else (retryFailure config lastError, w))"
  by pat_completeness auto
termination
  by (relation "measure (\<lambda>(config, operation, attempt, lastError, w).
        Suc (rc_maxRetries config) - attempt)") auto

declare retryLoop.simps [simp del]

definition executeWithRetry ::
  "RetryConfig \<Rightarrow> ('w \<Rightarrow> (JsError + 'a option) \<times> 'w) \<Rightarrow> 'w \<Rightarrow> 'a RetryResult \<times> 'w" where
  "executeWithRetry config operation w = retryLoop config operation 0 None w"

text \<open>
  \<open>retry\<close>: the value when the run succeeded with a defined value, else it throws
  \<open>result.error || new Error('Retry failed')\<close>.
\<close>

definition retry ::
  "RetryConfig \<Rightarrow> ('w \<Rightarrow> (JsError + 'a option) \<times> 'w) \<Rightarrow> 'w \<Rightarrow> (JsError + 'a) \<times> 'w" where
  "retry config operation w =
     (let (result, w1) = executeWithRetry config operation w in
      case (rr_success result, rr_result result) of
        (True, Some v) \<Rightarrow> (Inr v, w1)
      | _ \<Rightarrow> (Inl (case rr_error result of
                       None \<Rightarrow> \<lparr>err_name = ''Error'', err_message = ''Retry failed''\<rparr>
                     | Some e \<Rightarrow> e), w1))"

section \<open>CircuitBreaker.ts\<close>

datatype CircuitBreakerState = CLOSED | OPEN | HALF_OPEN

record RequestRecord =
  rq_timestamp :: int
  rq_success :: bool

record CircuitBreakerConfig =
  failureThreshold :: nat
  resetTimeout :: int
  monitoringPeriod :: int
  minimumRequests :: nat

record CircuitBreaker =
  cb_config :: CircuitBreakerConfig
  cb_state :: CircuitBreakerState
  cb_failureCount :: nat
  cb_successCount :: nat
  cb_lastFailureTime :: int
  cb_stateChangeTime :: int
  cb_requests :: "RequestRecord list"

definition cleanupRequests :: "int \<Rightarrow> CircuitBreaker \<Rightarrow> CircuitBreaker" where
  "cleanupRequests now cb =
     (let cutoff = now - monitoringPeriod (cb_config cb)
      in cb\<lparr>cb_requests := filter (\<lambda>req. rq_timestamp req > cutoff) (cb_requests cb)\<rparr>)"

text \<open>
  \<open>failures / length >= failureThreshold / 10\<close>, compared over the rationals; with no
  request the quotient is NaN and the comparison false.
\<close>

definition shouldOpenCircuit :: "int \<Rightarrow> CircuitBreaker \<Rightarrow> bool \<times> CircuitBreaker" where
  "shouldOpenCircuit now cb =
     (let cb1 = cleanupRequests now cb in
      if length (cb_requests cb1) < minimumRequests (cb_config cb1) then (False, cb1)
      else
        (let failures = length (filter (\<lambda>req. \<not> rq_success req) (cb_requests cb1))
         in (cb_requests cb1 \<noteq> []
               \<and> failures * 10 \<ge> failureThreshold (cb_config cb1) * length (cb_requests cb1),
             cb1)))"

definition shouldAttemptReset :: "int \<Rightarrow> CircuitBreaker \<Rightarrow> bool" where
  "shouldAttemptReset now cb = (now - cb_stateChangeTime cb \<ge> resetTimeout (cb_config cb))"

definition onSuccess :: "int \<Rightarrow> CircuitBreaker \<Rightarrow> CircuitBreaker" where
  "onSuccess now cb =
     (let cb1 = cb\<lparr>cb_successCount := cb_successCount cb + 1,
                    cb_requests := cb_requests cb @ [\<lparr>rq_timestamp = now, rq_success = True\<rparr>]\<rparr>;
          cb2 = (if cb_state cb1 = HALF_OPEN
                 then cb1\<lparr>cb_state := CLOSED, cb_failureCount := 0, cb_stateChangeTime := now\<rparr>
                 else cb1)
      in cleanupRequests now cb2)"

definition onFailure :: "int \<Rightarrow> CircuitBreaker \<Rightarrow> CircuitBreaker" where
  "onFailure now cb =
     (let cb1 = cb\<lparr>cb_failureCount := cb_failureCount cb + 1,
                    cb_lastFailureTime := now,
                    cb_requests := cb_requests cb @ [\<lparr>rq_timestamp = now, rq_success = False\<rparr>]\<rparr>;
          (opens, cb2) = shouldOpenCircuit now cb1;
          cb3 = (if opens then cb2\<lparr>cb_state := OPEN, cb_stateChangeTime := now\<rparr> else cb2)
      in cleanupRequests now cb3)"

definition canExecute :: "int \<Rightarrow> CircuitBreaker \<Rightarrow> bool \<times> CircuitBreaker" where
  "canExecute now cb =
     (if cb_state cb = CLOSED then (True, cb)
      else if cb_state cb = OPEN \<and> shouldAttemptReset now cb
      then (True, cb\<lparr>cb_state := HALF_OPEN, cb_stateChangeTime := now\<rparr>)
      else (cb_state cb = HALF_OPEN, cb))"

definition CircuitBreaker_execute ::
  "int \<Rightarrow> ('w \<Rightarrow> (JsError + 'a) \<times> 'w) \<Rightarrow> CircuitBreaker \<Rightarrow> 'w
     \<Rightarrow> (JsError + 'a) \<times> CircuitBreaker \<times> 'w" where
  "CircuitBreaker_execute now operation cb w =
     (if cb_state cb = OPEN \<and> \<not> shouldAttemptReset now cb then
        (Inl \<lparr>err_name = ''Error'', err_message = ''Circuit breaker is OPEN''\<rparr>, cb, w)
      else
        (let cb1 = (if cb_state cb = OPEN
                    then cb\<lparr>cb_state := HALF_OPEN, cb_stateChangeTime := now\<rparr>
                    else cb)
         in case operation w of
              (Inr result, w1) \<Rightarrow> (Inr result, onSuccess now cb1, w1)
            | (Inl error, w1) \<Rightarrow> (Inl error, onFailure now cb1, w1)))"

definition forceOpen :: "int \<Rightarrow> CircuitBreaker \<Rightarrow> CircuitBreaker" where
  "forceOpen now cb = cb\<lparr>cb_state := OPEN, cb_stateChangeTime := now\<rparr>"

section \<open>OfflineManager.ts\<close>

text \<open>
  \<open>sendFunction\<close> is a field that holds a function or \<open>null\<close>; the model passes the
  function to each operation and keeps whether the field is set. The awaits of a
  flush run to completion: no other capture is interleaved with it.
\<close>

record OfflineManager =
  om_maxQueueSize :: nat
  om_maxAge :: int
  om_queue :: "OfflineQueueItem list"
  om_isOnline :: bool
  om_hasSendFunction :: bool
  om_processingQueue :: bool

type_synonym sendFn = "ErrorData \<Rightarrow> World \<Rightarrow> (JsError + unit) \<times> World"

definition offlineStorageKey :: string where
  "offlineStorageKey = ''error-explorer-offline-queue''"

definition saveQueueToStorage :: "OfflineManager \<Rightarrow> World \<Rightarrow> World" where
  "saveQueueToStorage om w =
     (if \<not> ls_available (w_storage w) then w
      else w\<lparr>w_storage := setItem offlineStorageKey (StoredQueue (om_queue om)) (w_storage w)\<rparr>)"

definition cleanupQueue :: "int \<Rightarrow> OfflineManager \<Rightarrow> OfflineManager" where
  "cleanupQueue now om =
     (let cutoff = now - om_maxAge om
      in om\<lparr>om_queue := filter (\<lambda>item. qi_timestamp item > cutoff) (om_queue om)\<rparr>)"

definition generateId :: "World \<Rightarrow> string \<times> World" where
  "generateId w = (w_random w (w_drawn w), w\<lparr>w_drawn := w_drawn w + 1\<rparr>)"

text \<open>\<open>xs.slice(-n)\<close>: the last \<open>n\<close> elements, and all of them when \<open>n\<close> is 0.\<close>

definition sliceLast :: "nat \<Rightarrow> 'a list \<Rightarrow> 'a list" where
  "sliceLast n xs = (if n = 0 then xs else drop (length xs - n) xs)"

definition queueError :: "int \<Rightarrow> ErrorData \<Rightarrow> OfflineManager \<Rightarrow> World \<Rightarrow> OfflineManager \<times> World" where
  "queueError now errorData om w =
     (let (newId, w1) = generateId w;
          queueItem = \<lparr>qi_id = newId, qi_errorData = errorData,
                       qi_timestamp = now, qi_attempts = 0\<rparr>;
          om1 = cleanupQueue now om;
          om2 = om1\<lparr>om_queue := om_queue om1 @ [queueItem]\<rparr>;
          om3 = (if length (om_queue om2) > om_maxQueueSize om2
                 then om2\<lparr>om_queue :=
                        sliceLast (om_maxQueueSize om2) (sort_key qi_timestamp (om_queue om2))\<rparr>
                 else om2)
      in (om3, saveQueueToStorage om3 w1))"

definition handleError ::
  "sendFn \<Rightarrow> int \<Rightarrow> ErrorData \<Rightarrow> OfflineManager \<Rightarrow> World \<Rightarrow> OfflineManager \<times> World" where
  "handleError send now errorData om w =
     (if om_isOnline om \<and> om_hasSendFunction om then
        (case send errorData w of
           (Inr u, w1) \<Rightarrow> (om, w1)
         | (Inl error, w1) \<Rightarrow> queueError now errorData om w1)
      else queueError now errorData om w)"

text \<open>
  The loop of \<open>processQueue\<close> over the snapshot. The snapshot is a shallow copy: its
  items are the queue's own objects, so \<open>item.attempts++\<close> is seen in the queue. The
  loop returns the items as it leaves them, the identifiers pushed to
  \<open>processedItems\<close>, and the world.
\<close>

fun processItems ::
  "sendFn \<Rightarrow> OfflineQueueItem list \<Rightarrow> string list \<Rightarrow> World
     \<Rightarrow> OfflineQueueItem list \<times> string list \<times> World" where
  "processItems send [] processedItems w = ([], processedItems, w)"
| "processItems send (item # rest) processedItems w =
     (case send (qi_errorData item) w of
        (Inr u, w1) \<Rightarrow>
          (let (rest1, processed1, w2) = processItems send rest (processedItems @ [qi_id item]) w1
           in (item # rest1, processed1, w2))
      | (Inl error, w1) \<Rightarrow>
          (let item1 = item\<lparr>qi_attempts := qi_attempts item + 1\<rparr>;
               processed0 = (if qi_attempts item1 \<ge> 3 then processedItems @ [qi_id item1]
                             else processedItems);
               (rest1, processed1, w2) = processItems send rest processed0 w1
           in (item1 # rest1, processed1, w2)))"

definition processQueue :: "sendFn \<Rightarrow> OfflineManager \<Rightarrow> World \<Rightarrow> OfflineManager \<times> World" where
  "processQueue send om w =
     (if om_processingQueue om \<or> \<not> om_isOnline om \<or> \<not> om_hasSendFunction om then (om, w)
      else
        (let (items, processedItems, w1) = processItems send (om_queue om) [] w;
             om1 = om\<lparr>om_queue := filter (\<lambda>item. qi_id item \<notin> set processedItems) items,
                      om_processingQueue := False\<rparr>
         in (om1, saveQueueToStorage om1 w1)))"

definition flushQueue :: "sendFn \<Rightarrow> OfflineManager \<Rightarrow> World \<Rightarrow> OfflineManager \<times> World" where
  "flushQueue send om w = (if om_isOnline om then processQueue send om w else (om, w))"

definition clearQueue :: "OfflineManager \<Rightarrow> World \<Rightarrow> OfflineManager \<times> World" where
  "clearQueue om w = (let om1 = om\<lparr>om_queue := []\<rparr> in (om1, saveQueueToStorage om1 w))"

definition OfflineManager_destroy :: "OfflineManager \<Rightarrow> World \<Rightarrow> OfflineManager \<times> World" where
  "OfflineManager_destroy om w =
     (let (om1, w1) = clearQueue om w in (om1\<lparr>om_hasSendFunction := False\<rparr>, w1))"

section \<open>BatchManager.ts\<close>

text \<open>
  From the platform: the serialised size of a report and of a batch
  (\<open>new Blob([JSON.stringify(x)]).size\<close>), and \<open>String.prototype.toLowerCase\<close> with
  its Unicode case table.
\<close>

record Platform =
  payloadBytes :: "ErrorData \<Rightarrow> nat"
  batchBytes :: "ErrorData list \<Rightarrow> nat"
  toLowerCase :: "jsstring \<Rightarrow> jsstring"

record BatchConfig =
  bc_enabled :: bool
  bc_maxSize :: nat
  bc_maxWaitTime :: int
  bc_maxPayloadSize :: nat

record BatchManager =
  bm_config :: BatchConfig
  bm_currentBatch :: "ErrorData list"
  bm_batchTimer :: bool
  bm_hasSendFunction :: bool
  bm_batchCounter :: nat

type_synonym batchSendFn = "BatchedErrorData \<Rightarrow> World \<Rightarrow> (JsError + unit) \<times> World"

definition shouldSendBatch :: "Platform \<Rightarrow> BatchManager \<Rightarrow> bool" where
  "shouldSendBatch pf bm =
     (if length (bm_currentBatch bm) \<ge> bc_maxSize (bm_config bm) then True
      else batchBytes pf (bm_currentBatch bm) \<ge> bc_maxPayloadSize (bm_config bm))"

text \<open>A failed send of the batch is caught and logged; the batch is already cleared.\<close>

definition sendCurrentBatch ::
  "batchSendFn \<Rightarrow> int \<Rightarrow> BatchManager \<Rightarrow> World \<Rightarrow> BatchManager \<times> World" where
  "sendCurrentBatch send now bm w =
     (if bm_currentBatch bm = [] \<or> \<not> bm_hasSendFunction bm then (bm, w)
      else
        (let batch = \<lparr>bd_errors = bm_currentBatch bm,
                      bd_batchId = bm_batchCounter bm + 1,
                      bd_timestamp = now,
                      bd_count = length (bm_currentBatch bm)\<rparr>;
             bm1 = bm\<lparr>bm_batchCounter := bm_batchCounter bm + 1,
                      bm_currentBatch := [], bm_batchTimer := False\<rparr>
         in case send batch w of
              (Inr u, w1) \<Rightarrow> (bm1, w1)
            | (Inl error, w1) \<Rightarrow> (bm1, w1)))"

definition addError ::
  "Platform \<Rightarrow> batchSendFn \<Rightarrow> int \<Rightarrow> ErrorData \<Rightarrow> BatchManager \<Rightarrow> World
     \<Rightarrow> (JsError + unit) \<times> BatchManager \<times> World" where
  "addError pf send now errorData bm w =
     (if \<not> bc_enabled (bm_config bm) \<or> \<not> bm_hasSendFunction bm then
        (if bm_hasSendFunction bm then
           (let batch = \<lparr>bd_errors = [errorData], bd_batchId = bm_batchCounter bm + 1,
                         bd_timestamp = now, bd_count = 1\<rparr>;
                bm1 = bm\<lparr>bm_batchCounter := bm_batchCounter bm + 1\<rparr>
            in case send batch w of (r, w1) \<Rightarrow> (r, bm1, w1))
         else (Inr (), bm, w))
      else
        (let bm1 = bm\<lparr>bm_currentBatch := bm_currentBatch bm @ [errorData]\<rparr> in
         if shouldSendBatch pf bm1 then
           (let (bm2, w1) = sendCurrentBatch send now bm1 w in (Inr (), bm2, w1))
         else if \<not> bm_batchTimer bm1 then (Inr (), bm1\<lparr>bm_batchTimer := True\<rparr>, w)
         else (Inr (), bm1, w)))"

definition BatchManager_flush ::
  "batchSendFn \<Rightarrow> int \<Rightarrow> BatchManager \<Rightarrow> World \<Rightarrow> BatchManager \<times> World" where
  "BatchManager_flush send now bm w =
     (if bm_currentBatch bm \<noteq> [] then sendCurrentBatch send now bm w else (bm, w))"

definition BatchManager_destroy ::
  "batchSendFn \<Rightarrow> int \<Rightarrow> BatchManager \<Rightarrow> World \<Rightarrow> BatchManager \<times> World" where
  "BatchManager_destroy send now bm w =
     (let bm1 = bm\<lparr>bm_batchTimer := False\<rparr> in
      if bm_currentBatch bm1 \<noteq> [] then BatchManager_flush send now bm1 w else (bm1, w))"

section \<open>SDKMonitor.ts\<close>

record SDKMonitor =
  m_errorsReported :: nat
  m_errorsSuppressed :: nat
  m_retryAttempts :: nat
  m_performanceEntries :: "(string \<times> bool) list"

definition trackError :: "bool \<Rightarrow> SDKMonitor \<Rightarrow> SDKMonitor" where
  "trackError contextSuppressed m =
     (let m1 = m\<lparr>m_errorsReported := m_errorsReported m + 1\<rparr>
      in if contextSuppressed then m1\<lparr>m_errorsSuppressed := m_errorsSuppressed m1 + 1\<rparr> else m1)"

text \<open>\<open>trackSuppressedError\<close> counts the drop; the reason it is given is not kept.\<close>

definition trackSuppressedError :: "string \<Rightarrow> SDKMonitor \<Rightarrow> SDKMonitor" where
  "trackSuppressedError reason m = m\<lparr>m_errorsSuppressed := m_errorsSuppressed m + 1\<rparr>"

definition trackRetryAttempt :: "SDKMonitor \<Rightarrow> SDKMonitor" where
  "trackRetryAttempt m = m\<lparr>m_retryAttempts := m_retryAttempts m + 1\<rparr>"

definition trackPerformance :: "string \<Rightarrow> bool \<Rightarrow> SDKMonitor \<Rightarrow> SDKMonitor" where
  "trackPerformance operation success m =
     (let entries = m_performanceEntries m @ [(operation, success)]
      in m\<lparr>m_performanceEntries :=
             (if length entries > 100 then drop (length entries - 100) entries else entries)\<rparr>)"

definition SDKMonitor_destroy :: "SDKMonitor \<Rightarrow> SDKMonitor" where
  "SDKMonitor_destroy m = m\<lparr>m_performanceEntries := []\<rparr>"

section \<open>SecurityValidator.ts\<close>

subsection \<open>The regular expressions of the pattern table\<close>

text \<open>
  Every pattern of \<open>defaultSensitivePatterns\<close> is a sequence of character classes
  under a greedy quantifier \<open>{lo,hi}\<close> and of word boundaries \<open>\b\<close> (the one group,
  \<open>(?:[0-9]{1,3}\.){3}\<close>, has a fixed count and is written out three times). The
  matcher is the backtracking matcher of the engine on such sequences: a quantifier
  takes as many characters as it can and gives them back one at a time. It returns the
  length of the match that starts at the current position, given the character before
  it (for \<open>\b\<close>).
\<close>

datatype rx_item = Cls "nat \<Rightarrow> bool" nat "nat option" | WordBoundary

definition isDigit :: "nat \<Rightarrow> bool" where
  "isDigit c = (48 \<le> c \<and> c \<le> 57)"

definition isUpper :: "nat \<Rightarrow> bool" where
  "isUpper c = (65 \<le> c \<and> c \<le> 90)"

definition isLower :: "nat \<Rightarrow> bool" where
  "isLower c = (97 \<le> c \<and> c \<le> 122)"

definition isWord :: "nat \<Rightarrow> bool" where
  "isWord c = (isUpper c \<or> isLower c \<or> isDigit c \<or> c = 95)"

text \<open>\<open>\s\<close>: the white space and line terminators of ECMAScript.\<close>

definition isSpace :: "nat \<Rightarrow> bool" where
  "isSpace c = ((9 \<le> c \<and> c \<le> 13) \<or> c = 32 \<or> c = 160 \<or> c = 5760 \<or> (8192 \<le> c \<and> c \<le> 8202)
                 \<or> c = 8232 \<or> c = 8233 \<or> c = 8239 \<or> c = 8287 \<or> c = 12288 \<or> c = 65279)"

definition isWordOpt :: "nat option \<Rightarrow> bool" where
  "isWordOpt c = (case c of None \<Rightarrow> False | Some x \<Rightarrow> isWord x)"

fun decMax :: "nat option \<Rightarrow> nat option" where
  "decMax None = None"
| "decMax (Some n) = Some (n - 1)"

fun firstChar :: "jsstring \<Rightarrow> nat option" where
  "firstChar [] = None"
| "firstChar (c # s) = Some c"

fun rx_match :: "rx_item list \<Rightarrow> nat option \<Rightarrow> jsstring \<Rightarrow> nat option" where
  "rx_match [] prev s = Some 0"
| "rx_match (WordBoundary # r) prev s =
     (if isWordOpt prev \<noteq> isWordOpt (firstChar s) then rx_match r prev s else None)"
| "rx_match (Cls p lo hi # r) prev [] = (if lo = 0 then rx_match r prev [] else None)"
| "rx_match (Cls p lo hi # r) prev (c # s) =
     (if hi \<noteq> Some 0 \<and> p c then
        (case rx_match (Cls p (lo - 1) (decMax hi) # r) (Some c) s of
           Some n \<Rightarrow> Some (Suc n)
         | None \<Rightarrow> if lo = 0 then rx_match r prev (c # s) else None)
      else if lo = 0 then rx_match r prev (c # s) else None)"

definition REDACTED :: jsstring where
  "REDACTED = js ''[REDACTED]''"

text \<open>
  \<open>text.replace(pattern, '[REDACTED]')\<close> with the \<open>g\<close> flag: the leftmost match from
  each position on, the search resuming where the match ended (one character further
  after an empty match).
\<close>

fun replaceAll :: "rx_item list \<Rightarrow> nat option \<Rightarrow> jsstring \<Rightarrow> jsstring" where
  "replaceAll pat prev [] = (case rx_match pat prev [] of None \<Rightarrow> [] | Some n \<Rightarrow> REDACTED)"
| "replaceAll pat prev (c # s) =
     (case rx_match pat prev (c # s) of
        None \<Rightarrow> c # replaceAll pat (Some c) s
      | Some 0 \<Rightarrow> REDACTED @ c # replaceAll pat (Some c) s
      | Some (Suc k) \<Rightarrow> REDACTED @ replaceAll pat (Some ((c # s) ! k)) (drop k s))"

definition once :: "(nat \<Rightarrow> bool) \<Rightarrow> rx_item" where
  "once p = Cls p 1 (Some 1)"

definition opt :: "(nat \<Rightarrow> bool) \<Rightarrow> rx_item" where
  "opt p = Cls p 0 (Some 1)"

definition star :: "(nat \<Rightarrow> bool) \<Rightarrow> rx_item" where
  "star p = Cls p 0 None"

definition plus1 :: "(nat \<Rightarrow> bool) \<Rightarrow> rx_item" where
  "plus1 p = Cls p 1 None"

definition exactly :: "nat \<Rightarrow> (nat \<Rightarrow> bool) \<Rightarrow> rx_item" where
  "exactly n p = Cls p n (Some n)"

definition atLeastN :: "nat \<Rightarrow> (nat \<Rightarrow> bool) \<Rightarrow> rx_item" where
  "atLeastN n p = Cls p n None"

definition among :: "string \<Rightarrow> nat \<Rightarrow> bool" where
  "among cs c = (c \<in> set (js cs))"

definition lit :: "string \<Rightarrow> rx_item list" where
  "lit cs = map (\<lambda>x. once (\<lambda>c. c = x)) (js cs)"

text \<open>A literal under the \<open>i\<close> flag: each letter in either case.\<close>

definition litNoCase :: "string \<Rightarrow> rx_item list" where
  "litNoCase cs =
     map (\<lambda>x. once (\<lambda>c. c = x \<or> (isLower x \<and> c + 32 = x) \<or> (isUpper x \<and> c = x + 32))) (js cs)"

definition isQuote :: "nat \<Rightarrow> bool" where
  "isQuote c = (c = 34 \<or> c = 39)"

definition isIdent :: "nat \<Rightarrow> bool" where
  "isIdent c = (isUpper c \<or> isLower c \<or> isDigit c \<or> among ''_-'' c)"

definition rx_creditCard :: "rx_item list" where
  "rx_creditCard =
     [WordBoundary, exactly 4 isDigit, opt (\<lambda>c. c = 45 \<or> isSpace c),
      exactly 4 isDigit, opt (\<lambda>c. c = 45 \<or> isSpace c),
      exactly 4 isDigit, opt (\<lambda>c. c = 45 \<or> isSpace c),
      exactly 4 isDigit, WordBoundary]"

definition rx_ssn :: "rx_item list" where
  "rx_ssn =
     [WordBoundary, exactly 3 isDigit] @ lit ''-'' @ [exactly 2 isDigit] @ lit ''-''
       @ [exactly 4 isDigit, WordBoundary]"

definition rx_email :: "rx_item list" where
  "rx_email =
     [WordBoundary, plus1 (\<lambda>c. isUpper c \<or> isLower c \<or> isDigit c \<or> among ''._%+-'' c)]
       @ lit ''@''
       @ [plus1 (\<lambda>c. isUpper c \<or> isLower c \<or> isDigit c \<or> among ''.-'' c)]
       @ lit ''.''
       @ [atLeastN 2 (\<lambda>c. isUpper c \<or> c = 124 \<or> isLower c), WordBoundary]"

definition rx_phone :: "rx_item list" where
  "rx_phone =
     [WordBoundary, exactly 3 isDigit, opt (among ''-.''), exactly 3 isDigit, opt (among ''-.''),
      exactly 4 isDigit, WordBoundary]"

definition rx_ipv4 :: "rx_item list" where
  "rx_ipv4 =
     [WordBoundary, Cls isDigit 1 (Some 3)] @ lit ''.'' @ [Cls isDigit 1 (Some 3)] @ lit ''.''
       @ [Cls isDigit 1 (Some 3)] @ lit ''.'' @ [Cls isDigit 1 (Some 3), WordBoundary]"

definition rx_jwt :: "rx_item list" where
  "rx_jwt =
     [WordBoundary] @ lit ''eyJ'' @ [star isIdent] @ lit ''.'' @ [star isIdent] @ lit ''.''
       @ [star isIdent, WordBoundary]"

definition rx_apiKey :: "rx_item list" where
  "rx_apiKey =
     [WordBoundary, once (among ''Aa'')] @ lit ''pi'' @ [opt (among ''_-''), once (among ''Kk'')]
       @ lit ''ey'' @ [star (\<lambda>c. c = 58 \<or> isSpace c), atLeastN 20 isIdent, WordBoundary]"

definition rx_password :: "rx_item list" where
  "rx_password =
     [opt isQuote] @ litNoCase ''password''
       @ [opt isQuote, star isSpace, once (\<lambda>c. c = 58 \<or> isSpace c \<or> c = 61), star isSpace,
          once isQuote, star (\<lambda>c. \<not> isQuote c), opt isQuote]"

definition rx_accessToken :: "rx_item list" where
  "rx_accessToken =
     [WordBoundary, once (among ''Aa'')] @ lit ''ccess'' @ [opt (among ''_-''), once (among ''Tt'')]
       @ lit ''oken'' @ [star (\<lambda>c. c = 58 \<or> isSpace c), atLeastN 20 isIdent, WordBoundary]"

definition defaultSensitivePatterns :: "rx_item list list" where
  "defaultSensitivePatterns =
     [rx_creditCard, rx_ssn, rx_email, rx_phone, rx_ipv4, rx_jwt, rx_apiKey, rx_password,
      rx_accessToken]"

subsection \<open>Validation and redaction\<close>

record SecurityConfig =
  sc_requireHttps :: bool
  sc_validateToken :: bool
  sc_maxPayloadSize :: nat
  sc_sensitiveDataPatterns :: "rx_item list list"

text \<open>
  \<open>validatePayload\<close>: the errors it collects; the payload is valid when there is none.
  Its warnings only reach the debug log and are left out.
\<close>

definition validatePayload :: "Platform \<Rightarrow> SecurityConfig \<Rightarrow> ErrorData \<Rightarrow> string list" where
  "validatePayload pf config errorData =
     (if payloadBytes pf errorData > sc_maxPayloadSize config
      then [''Payload size ('' @ decimal (payloadBytes pf errorData)
              @ '' bytes) exceeds maximum allowed size (''
              @ decimal (sc_maxPayloadSize config) @ '' bytes)'']
      else [])
     @ (if ed_message errorData = [] then [''Error message is required''] else [])
     @ (if ed_project errorData = [] then [''Project name is required''] else [])
     @ (if ed_timestamp errorData = [] then [''Timestamp is required''] else [])"

definition sanitizeText :: "rx_item list list \<Rightarrow> jsstring \<Rightarrow> jsstring" where
  "sanitizeText patterns text0 =
     fold (\<lambda>pattern sanitized. replaceAll pattern None sanitized) patterns text0"

definition sensitiveKeys :: "jsstring list" where
  "sensitiveKeys =
     [js ''password'', js ''token'', js ''secret'', js ''key'', js ''auth'', js ''credential'']"

definition isSensitiveKey :: "Platform \<Rightarrow> jsstring \<Rightarrow> bool" where
  "isSensitiveKey pf key =
     list_ex (\<lambda>sensitiveKey. str_includes (toLowerCase pf key) sensitiveKey) sensitiveKeys"

fun isString :: "json \<Rightarrow> bool" where
  "isString (JStr t) = True"
| "isString v = False"

fun stringOf :: "json \<Rightarrow> jsstring" where
  "stringOf (JStr t) = t"
| "stringOf v = []"

text \<open>\<open>typeof v === 'object'\<close>: objects, arrays and \<open>null\<close>.\<close>

fun isObjectType :: "json \<Rightarrow> bool" where
  "isObjectType JNull = True"
| "isObjectType (JArr xs) = True"
| "isObjectType (JObj kvs) = True"
| "isObjectType v = False"

fun sanitizeObject :: "Platform \<Rightarrow> rx_item list list \<Rightarrow> json \<Rightarrow> json"
  and sanitizeItems :: "Platform \<Rightarrow> rx_item list list \<Rightarrow> json list \<Rightarrow> json list"
  and sanitizeEntries ::
    "Platform \<Rightarrow> rx_item list list \<Rightarrow> (jsstring \<times> json) list \<Rightarrow> (jsstring \<times> json) list" where
  "sanitizeObject pf patterns (JArr xs) = JArr (sanitizeItems pf patterns xs)"
| "sanitizeObject pf patterns (JObj kvs) = JObj (sanitizeEntries pf patterns kvs)"
| "sanitizeObject pf patterns JUndefined = JUndefined"
| "sanitizeObject pf patterns JNull = JNull"
| "sanitizeObject pf patterns (JBool b) = JBool b"
| "sanitizeObject pf patterns (JNum n) = JNum n"
| "sanitizeObject pf patterns (JStr t) = JStr t"
| "sanitizeItems pf patterns [] = []"
| "sanitizeItems pf patterns (x # xs) = sanitizeObject pf patterns x # sanitizeItems pf patterns xs"
| "sanitizeEntries pf patterns [] = []"
| "sanitizeEntries pf patterns ((key, v) # rest) =
     (key,
      if isSensitiveKey pf key then JStr REDACTED
      else if isString v then JStr (sanitizeText patterns (stringOf v))
      else if isObjectType v then sanitizeObject pf patterns v
      else v) # sanitizeEntries pf patterns rest"

definition sanitizeBreadcrumb :: "Platform \<Rightarrow> rx_item list list \<Rightarrow> Breadcrumb \<Rightarrow> Breadcrumb" where
  "sanitizeBreadcrumb pf patterns breadcrumb =
     breadcrumb\<lparr>bc_message := sanitizeText patterns (bc_message breadcrumb),
                bc_data := (if truthy (bc_data breadcrumb)
                            then sanitizeObject pf patterns (bc_data breadcrumb)
                            else JUndefined)\<rparr>"

definition sanitizeErrorData :: "Platform \<Rightarrow> SecurityConfig \<Rightarrow> ErrorData \<Rightarrow> ErrorData" where
  "sanitizeErrorData pf config errorData =
     (let patterns = sc_sensitiveDataPatterns config;
          s1 = (if ed_message errorData \<noteq> []
                then errorData\<lparr>ed_message := sanitizeText patterns (ed_message errorData)\<rparr>
                else errorData);
          s2 = (if ed_stack_trace s1 \<noteq> []
                then s1\<lparr>ed_stack_trace := sanitizeText patterns (ed_stack_trace s1)\<rparr>
                else s1);
          s3 = (if truthy (ed_context s2)
                then s2\<lparr>ed_context := sanitizeObject pf patterns (ed_context s2)\<rparr>
                else s2);
          s4 = (case ed_breadcrumbs s3 of
                  None \<Rightarrow> s3
                | Some bs \<Rightarrow> s3\<lparr>ed_breadcrumbs := Some (map (sanitizeBreadcrumb pf patterns) bs)\<rparr>);
          s5 = (if truthy (ed_user s4)
                then s4\<lparr>ed_user := sanitizeObject pf patterns (ed_user s4)\<rparr>
                else s4)
      in s5)"

section \<open>ErrorReporter.ts\<close>

text \<open>
  \<open>beforeSend\<close> is the optional hook of the configuration; it returns the report to
  send or a falsy value (\<open>None\<close>).
\<close>

record ReporterConfig =
  cfg_enabled :: bool
  cfg_enableBatching :: bool
  cfg_enableOfflineSupport :: bool
  cfg_beforeSend :: "(ErrorData \<Rightarrow> ErrorData option) option"

record ErrorReporter =
  er_config :: ReporterConfig
  er_isInitialized :: bool
  er_rateLimiter :: RateLimiter
  er_quotaManager :: QuotaManager
  er_sdkMonitor :: SDKMonitor
  er_circuitBreaker :: CircuitBreaker
  er_offlineManager :: OfflineManager
  er_batchManager :: BatchManager
  er_retryManager :: RetryConfig
  er_securityValidator :: SecurityConfig

definition sendErrorDirectly :: "RetryConfig \<Rightarrow> ErrorData \<Rightarrow> World \<Rightarrow> (JsError + unit) \<times> World" where
  "sendErrorDirectly rc errorData w =
     (let (result, w1) = executeWithRetry rc (sendWithCompression (Single errorData)) w in
      if \<not> rr_success result
      then (Inl (case rr_error result of
                   Some e \<Rightarrow> e
                 | None \<Rightarrow> \<lparr>err_name = ''undefined'', err_message = []\<rparr>), w1)
      else (Inr (), w1))"

definition sendBatchDirectly ::
  "RetryConfig \<Rightarrow> BatchedErrorData \<Rightarrow> World \<Rightarrow> (JsError + unit) \<times> World" where
  "sendBatchDirectly rc batchData w =
     (let (result, w1) = executeWithRetry rc (sendWithCompression (Batch batchData)) w in
      if \<not> rr_success result
      then (Inl (case rr_error result of
                   Some e \<Rightarrow> e
                 | None \<Rightarrow> \<lparr>err_name = ''undefined'', err_message = []\<rparr>), w1)
      else (Inr (), w1))"

text \<open>
  The operation \<open>sendError\<close> hands to the circuit breaker. It works on the offline
  manager and the world.
\<close>

definition guardedSend ::
  "int \<Rightarrow> ErrorData \<Rightarrow> ErrorReporter \<Rightarrow> OfflineManager \<times> World
     \<Rightarrow> (JsError + unit) \<times> OfflineManager \<times> World" where
  "guardedSend now errorData er omw =
     (case omw of (om, w) \<Rightarrow>
        if cfg_enableOfflineSupport (er_config er) then
          (let (om1, w1) = handleError (sendErrorDirectly (er_retryManager er)) now errorData om w
           in (Inr (), om1, w1))
        else
          (case sendErrorDirectly (er_retryManager er) errorData w of
             (r, w1) \<Rightarrow> (r, om, w1)))"

text \<open>
  \<open>retryManager.retry(() => this.sendErrorDirectly(errorData))\<close>: the operation
  resolves to \<open>undefined\<close>.
\<close>

definition retrySend :: "RetryConfig \<Rightarrow> ErrorData \<Rightarrow> World \<Rightarrow> (JsError + unit) \<times> World" where
  "retrySend rc errorData w =
     retry rc (\<lambda>w0. case sendErrorDirectly rc errorData w0 of
                       (Inl e, w1) \<Rightarrow> (Inl e, w1)
                     | (Inr u, w1) \<Rightarrow> (Inr None, w1)) w"

definition sendError ::
  "Platform \<Rightarrow> int \<Rightarrow> ErrorData \<Rightarrow> ErrorReporter \<Rightarrow> World
     \<Rightarrow> (JsError + unit) \<times> ErrorReporter \<times> World" where
  "sendError pf now errorData er w =
     (if cfg_enableBatching (er_config er) then
        (case addError pf (sendBatchDirectly (er_retryManager er)) now errorData
                (er_batchManager er) w of
           (r, bm1, w1) \<Rightarrow> (r, er\<lparr>er_batchManager := bm1\<rparr>, w1))
      else
        (let (may, cb1) = canExecute now (er_circuitBreaker er) in
         if \<not> may then
           (let (om1, w1) = handleError (sendErrorDirectly (er_retryManager er)) now errorData
                              (er_offlineManager er) w
            in (Inr (), er\<lparr>er_circuitBreaker := cb1, er_offlineManager := om1\<rparr>, w1))
         else
           (case CircuitBreaker_execute now (guardedSend now errorData er) cb1
                   (er_offlineManager er, w) of
              (Inr u, cb2, om1, w1) \<Rightarrow>
                (Inr (), er\<lparr>er_circuitBreaker := cb2, er_offlineManager := om1\<rparr>, w1)
            | (Inl error, cb2, om1, w1) \<Rightarrow>
                (let er1 = er\<lparr>er_circuitBreaker := cb2, er_offlineManager := om1,
                               er_sdkMonitor := trackRetryAttempt (er_sdkMonitor er)\<rparr> in
                 if \<not> cfg_enableOfflineSupport (er_config er) then
                   (case retrySend (er_retryManager er) errorData w1 of
                      (r, w2) \<Rightarrow> (Inr (), er1, w2))
                 else (Inr (), er1, w1)))))"

text \<open>
  The stages of \<open>captureException\<close> between formatting and the rate limiter:
  validation, redaction and the \<open>beforeSend\<close> hook. The result is the report that
  goes on, or the reason given to \<open>trackSuppressedError\<close>.
\<close>

definition prepareReport :: "Platform \<Rightarrow> ErrorReporter \<Rightarrow> ErrorData \<Rightarrow> string + ErrorData" where
  "prepareReport pf er errorData =
     (if validatePayload pf (er_securityValidator er) errorData \<noteq> []
      then Inl ''Payload validation failed''
      else
        (let sanitizedData = sanitizeErrorData pf (er_securityValidator er) errorData in
         case cfg_beforeSend (er_config er) of
           None \<Rightarrow> Inr sanitizedData
         | Some beforeSend \<Rightarrow>
             (case beforeSend sanitizedData of
                None \<Rightarrow> Inl ''Filtered by beforeSend''
              | Some processedData \<Rightarrow> Inr processedData)))"

definition suppress :: "string \<Rightarrow> ErrorReporter \<Rightarrow> ErrorReporter" where
  "suppress reason er = er\<lparr>er_sdkMonitor := trackSuppressedError reason (er_sdkMonitor er)\<rparr>"

definition perf :: "bool \<Rightarrow> ErrorReporter \<Rightarrow> ErrorReporter" where
  "perf success er =
     er\<lparr>er_sdkMonitor := trackPerformance ''captureException'' success (er_sdkMonitor er)\<rparr>"

text \<open>
  \<open>captureException\<close>, from the formatted report on (\<open>formatError\<close> reads the browser).
  \<open>contextSuppressed\<close> is \<open>context?.suppressed\<close>. An exception inside the \<open>try\<close> ends
  in the \<open>catch\<close>, which records a failed performance entry.
\<close>

definition captureException ::
  "Platform \<Rightarrow> Clock \<Rightarrow> bool \<Rightarrow> ErrorData \<Rightarrow> ErrorReporter \<Rightarrow> World \<Rightarrow> ErrorReporter \<times> World" where
  "captureException pf clk contextSuppressed errorData er w =
     (if \<not> cfg_enabled (er_config er) \<or> \<not> er_isInitialized er then (er, w)
      else
        (let er1 = er\<lparr>er_sdkMonitor := trackError contextSuppressed (er_sdkMonitor er)\<rparr> in
         case prepareReport pf er1 errorData of
           Inl reason \<Rightarrow> (suppress reason er1, w)
         | Inr finalData \<Rightarrow>
             (case RateLimiter_canSendError (clk_now clk) finalData (er_rateLimiter er1) of
                (Inl thrown, rl1) \<Rightarrow> (perf False (er1\<lparr>er_rateLimiter := rl1\<rparr>), w)
              | (Inr rateLimitResult, rl1) \<Rightarrow>
                  (let er2 = er1\<lparr>er_rateLimiter := rl1\<rparr> in
                   if \<not> rli_allowed rateLimitResult then
                     (suppress (case rli_reason rateLimitResult of
                                  None \<Rightarrow> ''Rate limited'' | Some r \<Rightarrow> r) er2, w)
                   else
                     (let payloadSize = payloadBytes pf finalData;
                          (quotaResult, qm1) =
                             QuotaManager_canSendError clk payloadSize (er_quotaManager er2);
                          er3 = er2\<lparr>er_quotaManager := qm1\<rparr> in
                      if \<not> qr_allowed quotaResult then
                        (suppress (case qr_reason quotaResult of
                                     None \<Rightarrow> ''Quota exceeded'' | Some r \<Rightarrow> r) er3, w)
                      else
                        (case markErrorSent (clk_now clk) finalData (er_rateLimiter er3) of
                           (Inl thrown, rl2) \<Rightarrow> (perf False (er3\<lparr>er_rateLimiter := rl2\<rparr>), w)
                         | (Inr u, rl2) \<Rightarrow>
                             (let (qm2, ls1) = recordUsage clk payloadSize (er_quotaManager er3)
                                                 (w_storage w);
                                  er4 = er3\<lparr>er_rateLimiter := rl2, er_quotaManager := qm2\<rparr>;
                                  w1 = w\<lparr>w_storage := ls1\<rparr>
                              in case sendError pf (clk_now clk) finalData er4 w1 of
                                   (Inr u1, er5, w2) \<Rightarrow> (perf True er5, w2)
                                 | (Inl thrown, er5, w2) \<Rightarrow> (perf False er5, w2))))))))"

text \<open>\<open>destroy\<close>: every component in the order of the source.\<close>

definition ErrorReporter_destroy ::
  "int \<Rightarrow> ErrorReporter \<Rightarrow> World \<Rightarrow> ErrorReporter \<times> World" where
  "ErrorReporter_destroy now er w =
     (let rl1 = RateLimiter_destroy (er_rateLimiter er);
          (om1, w1) = OfflineManager_destroy (er_offlineManager er) w;
          (qm1, ls1) = QuotaManager_destroy (er_quotaManager er) (w_storage w1);
          w2 = w1\<lparr>w_storage := ls1\<rparr>;
          m1 = SDKMonitor_destroy (er_sdkMonitor er);
          (bm1, w3) = BatchManager_destroy (sendBatchDirectly (er_retryManager er)) now
                        (er_batchManager er) w2
      in (er\<lparr>er_rateLimiter := rl1, er_offlineManager := om1, er_quotaManager := qm1,
             er_sdkMonitor := m1, er_batchManager := bm1, er_isInitialized := False\<rparr>, w3))"

section \<open>Notions used in the statements\<close>

text \<open>
  The quota decision as the specification words it: the four limits in the order
  payload size, burst, daily, monthly, and the reason of the first that fails.
\<close>

definition firstFailure :: "(bool \<times> string) list \<Rightarrow> string option" where
  "firstFailure checks = map_option snd (find fst checks)"

definition quotaChecks_spec ::
  "QuotaConfig \<Rightarrow> nat \<Rightarrow> nat \<Rightarrow> nat \<Rightarrow> nat \<Rightarrow> (bool \<times> string) list" where
  "quotaChecks_spec c payloadSize burst daily monthly =
     [(payloadSize > payloadSizeLimit c, payloadReason payloadSize (payloadSizeLimit c)),
      (burst \<ge> burstLimit c, ''Burst limit exceeded''),
      (daily \<ge> dailyLimit c, ''Daily quota exceeded''),
      (monthly \<ge> monthlyLimit c, ''Monthly quota exceeded'')]"

text \<open>
  A counter of the rate limiter or of the quota manager has advanced between two
  states of the reporter: the fingerprint map differs, or a list or a count has grown.
\<close>

definition advanced :: "ErrorReporter \<Rightarrow> ErrorReporter \<Rightarrow> bool" where
  "advanced er er' =
     (rl_errorHashes (er_rateLimiter er') \<noteq> rl_errorHashes (er_rateLimiter er)
      \<or> length (rl_requests (er_rateLimiter er')) > length (rl_requests (er_rateLimiter er))
      \<or> qm_dailyCount (er_quotaManager er') > qm_dailyCount (er_quotaManager er)
      \<or> qm_monthlyCount (er_quotaManager er') > qm_monthlyCount (er_quotaManager er)
      \<or> length (qm_burstCounts (er_quotaManager er'))
           > length (qm_burstCounts (er_quotaManager er)))"

subsection \<open>Concrete inputs\<close>

definition exampleReport :: ErrorData where
  "exampleReport =
     \<lparr>ed_message = js ''Test error'', ed_exception_class = js ''Error'',
      ed_stack_trace = js ''Error: Test error at test.js:1:1'', ed_file = js ''test.js'',
      ed_line = 1, ed_project = js ''test-project'', ed_environment = js ''test'',
      ed_timestamp = js ''2024-01-01T00:00:00.000Z'', ed_context = JUndefined,
      ed_breadcrumbs = None, ed_user = JUndefined, ed_other = JUndefined\<rparr>"

definition exampleHash :: string where
  "exampleHash = ''VGVzdCBlcnJvci10ZXN0LmpzLTE''"

definition asciiLower :: "jsstring \<Rightarrow> jsstring" where
  "asciiLower s = map (\<lambda>c. if isUpper c then c + 32 else c) s"

definition examplePlatform :: Platform where
  "examplePlatform =
     \<lparr>payloadBytes = (\<lambda>e. 100 + length (ed_message e) + length (ed_stack_trace e)),
      batchBytes = (\<lambda>es. 100 + 200 * length es),
      toLowerCase = asciiLower\<rparr>"

definition exampleClock :: Clock where
  "exampleClock = \<lparr>clk_now = 2000, clk_dateKey = ''2024-01-01'', clk_monthKey = ''2024-01'',
                    clk_tomorrow = 86400000\<rparr>"

definition serverError :: JsError where
  "serverError =
     \<lparr>err_name = ''AxiosError'', err_message = ''Request failed with status code 500''\<rparr>"

definition notFound :: JsError where
  "notFound =
     \<lparr>err_name = ''AxiosError'', err_message = ''Request failed with status code 404''\<rparr>"

text \<open>A world whose webhook answers every POST with status 500.\<close>

definition failingWorld :: World where
  "failingWorld =
     \<lparr>w_posts = [], w_respond = (\<lambda>k. Some serverError),
      w_storage = \<lparr>ls_available = True, ls_accepts = True, ls_items = Map.empty\<rparr>,
      w_random = (\<lambda>k. ''id'' @ decimal k), w_drawn = 0\<rparr>"

text \<open>
  A reporter as the constructor builds it from the defaults, with a batch size of 1.
\<close>

definition exampleReporter :: ErrorReporter where
  "exampleReporter =
     \<lparr>er_config = \<lparr>cfg_enabled = True, cfg_enableBatching = True,
                    cfg_enableOfflineSupport = True, cfg_beforeSend = None\<rparr>,
      er_isInitialized = True,
      er_rateLimiter = \<lparr>rl_config = \<lparr>maxRequests = 10, windowMs = 60000,
                                       duplicateErrorWindow = 5000\<rparr>,
                        rl_requests = [], rl_errorHashes = Map.empty\<rparr>,
      er_quotaManager = \<lparr>qm_config = \<lparr>dailyLimit = 1000, monthlyLimit = 10000,
                                        payloadSizeLimit = 1048576, burstLimit = 50,
                                        burstWindowMs = 60000\<rparr>,
                         qm_dailyCount = 0, qm_monthlyCount = 0, qm_burstCounts = [],
                         qm_lastResetDate = ''2024-01-01'', qm_lastResetMonth = ''2024-01''\<rparr>,
      er_sdkMonitor = \<lparr>m_errorsReported = 0, m_errorsSuppressed = 0, m_retryAttempts = 0,
                       m_performanceEntries = []\<rparr>,
      er_circuitBreaker = \<lparr>cb_config = \<lparr>failureThreshold = 5, resetTimeout = 60000,
                                          monitoringPeriod = 60000, minimumRequests = 3\<rparr>,
                           cb_state = CLOSED, cb_failureCount = 0, cb_successCount = 0,
                           cb_lastFailureTime = 0, cb_stateChangeTime = 0, cb_requests = []\<rparr>,
      er_offlineManager = \<lparr>om_maxQueueSize = 50, om_maxAge = 86400000, om_queue = [],
                           om_isOnline = True, om_hasSendFunction = True,
                           om_processingQueue = False\<rparr>,
      er_batchManager = \<lparr>bm_config = \<lparr>bc_enabled = True, bc_maxSize = 1,
                                        bc_maxWaitTime = 5000, bc_maxPayloadSize = 102400\<rparr>,
                         bm_currentBatch = [], bm_batchTimer = False,
                         bm_hasSendFunction = True, bm_batchCounter = 0\<rparr>,
      er_retryManager = \<lparr>rc_maxRetries = 3, rc_initialDelay = 1000, rc_maxDelay = 30000,
                         rc_backoffMultiplier = 2, rc_jitter = True\<rparr>,
      er_securityValidator = \<lparr>sc_requireHttps = True, sc_validateToken = True,
                              sc_maxPayloadSize = 1048576,
                              sc_sensitiveDataPatterns = defaultSensitivePatterns\<rparr>\<rparr>"

text \<open>
  A rate limiter with \<open>maxRequests = 1\<close> that admitted the example report one second
  before the instant 2000.
\<close>

definition fullLimiter :: RateLimiter where
  "fullLimiter =
     \<lparr>rl_config = \<lparr>maxRequests = 1, windowMs = 60000, duplicateErrorWindow = 5000\<rparr>,
      rl_requests = [1000],
      rl_errorHashes = [exampleHash \<mapsto> 1000]\<rparr>"

text \<open>A quota manager with every counter at its limit.\<close>

definition busyQuota :: QuotaManager where
  "busyQuota =
     \<lparr>qm_config = \<lparr>dailyLimit = 2, monthlyLimit = 10, payloadSizeLimit = 1000,
                    burstLimit = 1, burstWindowMs = 60000\<rparr>,
      qm_dailyCount = 2, qm_monthlyCount = 10, qm_burstCounts = [1500],
      qm_lastResetDate = ''2024-01-01'', qm_lastResetMonth = ''2024-01''\<rparr>"

text \<open>The example reporter after it admitted the example report at the instant 1000.\<close>

definition seenReporter :: ErrorReporter where
  "seenReporter =
     exampleReporter\<lparr>er_rateLimiter :=
       \<lparr>rl_config = \<lparr>maxRequests = 10, windowMs = 60000, duplicateErrorWindow = 5000\<rparr>,
        rl_requests = [1000], rl_errorHashes = [exampleHash \<mapsto> 1000]\<rparr>\<rparr>"

text \<open>
  An operation that always throws the given error and counts its invocations: the
  world is the count.
\<close>

definition countingOp :: "JsError \<Rightarrow> nat \<Rightarrow> (JsError + unit option) \<times> nat" where
  "countingOp e n = (Inl e, n + 1)"

text \<open>The ledger that \<open>saveToStorage\<close> writes after \<open>resetQuotas\<close>.\<close>

definition zeroLedger :: "QuotaManager \<Rightarrow> stored" where
  "zeroLedger qm =
     StoredQuota \<lparr>qd_dailyCount = 0, qd_monthlyCount = 0, qd_burstCounts = [],
                  qd_lastResetDate = qm_lastResetDate qm,
                  qd_lastResetMonth = qm_lastResetMonth qm\<rparr>"

text \<open>A quota manager with usage, and a world whose store holds its ledger.\<close>

definition usedQuota :: QuotaManager where
  "usedQuota = (er_quotaManager exampleReporter)
     \<lparr>qm_dailyCount := 7, qm_monthlyCount := 30, qm_burstCounts := [1500]\<rparr>"

definition usedWorld :: World where
  "usedWorld = failingWorld\<lparr>w_storage :=
     \<lparr>ls_available = True, ls_accepts = True,
      ls_items = [quotaStorageKey \<mapsto>
        StoredQuota \<lparr>qd_dailyCount = 7, qd_monthlyCount = 30, qd_burstCounts = [1500],
                     qd_lastResetDate = ''2024-01-01'', qd_lastResetMonth = ''2024-01''\<rparr>]\<rparr>\<rparr>"


text \<open>
  What the specification says of a flush, on the items paired with the outcome of
  their send: an item is removed when its send succeeded or when the failure brings
  \<open>attempts\<close> to 3 or more; the others stay, in order, with \<open>attempts\<close> incremented.
\<close>

definition removedByFlush :: "OfflineQueueItem \<times> bool \<Rightarrow> bool" where
  "removedByFlush p = (snd p \<or> qi_attempts (fst p) + 1 \<ge> 3)"

definition afterSend :: "OfflineQueueItem \<times> bool \<Rightarrow> OfflineQueueItem" where
  "afterSend p = (if snd p then fst p else (fst p)\<lparr>qi_attempts := qi_attempts (fst p) + 1\<rparr>)"

definition flush_spec :: "(OfflineQueueItem \<times> bool) list \<Rightarrow> OfflineQueueItem list" where
  "flush_spec ps = map afterSend (filter (\<lambda>p. \<not> removedByFlush p) ps)"












text \<open>
  The outcomes of a report between two worlds \<open>w\<close> and \<open>w'\<close>: a POST of the payload made
  after \<open>w\<close> was accepted; no POST made after \<open>w\<close> was accepted; the report is the
  newest item of the offline queue, with the identifier drawn at \<open>w\<close> and no attempt.
\<close>

definition delivered :: "World \<Rightarrow> World \<Rightarrow> payload \<Rightarrow> bool" where
  "delivered w w' p =
     list_ex (\<lambda>k. w_posts w' ! k = p \<and> w_respond w' k = None)
       [length (w_posts w) ..< length (w_posts w')]"

definition noneAccepted :: "World \<Rightarrow> World \<Rightarrow> bool" where
  "noneAccepted w w' =
     list_all (\<lambda>k. w_respond w' k \<noteq> None) [length (w_posts w) ..< length (w_posts w')]"

definition queuedLast :: "int \<Rightarrow> ErrorData \<Rightarrow> World \<Rightarrow> OfflineManager \<Rightarrow> bool" where
  "queuedLast now e w om' =
     (om_queue om' \<noteq> []
      \<and> last (om_queue om') =
          \<lparr>qi_id = w_random w (w_drawn w), qi_errorData = e, qi_timestamp = now,
           qi_attempts = 0\<rparr>)"

section \<open>Properties of the rate limiter and the quota manager\<close>

lemma exampleHash_eq: "generateErrorHash exampleReport = Inr exampleHash"
  by code_simp

lemma cleanupOldData_idem:
  "cleanupOldData clk (cleanupOldData clk qm) = cleanupOldData clk qm"
  by (simp add: cleanupOldData_def cleanupBurstCounts_def Let_def)

lemma cleanupBurstCounts_cleanupOldData:
  "cleanupBurstCounts clk (cleanupOldData clk qm) = cleanupOldData clk qm"
  by (simp add: cleanupOldData_def cleanupBurstCounts_def Let_def)

lemma cleanupOldData_config: "qm_config (cleanupOldData clk qm) = qm_config qm"
  by (simp add: cleanupOldData_def cleanupBurstCounts_def Let_def)

lemma cleanupOldData_counts:
  "qm_dailyCount (cleanupOldData clk qm) =
     (if clk_dateKey clk \<noteq> qm_lastResetDate qm then 0 else qm_dailyCount qm)"
  "qm_monthlyCount (cleanupOldData clk qm) =
     (if clk_monthKey clk \<noteq> qm_lastResetMonth qm then 0 else qm_monthlyCount qm)"
  "qm_burstCounts (cleanupOldData clk qm) =
     filter (\<lambda>t. t > clk_now clk - burstWindowMs (qm_config qm)) (qm_burstCounts qm)"
  by (simp_all add: cleanupOldData_def cleanupBurstCounts_def Let_def)

lemma quota_check_state:
  "snd (QuotaManager_canSendError clk payloadSize qm) = cleanupOldData clk qm"
  by (simp add: QuotaManager_canSendError_def QuotaManager_getStats_def Let_def
        cleanupOldData_idem cleanupBurstCounts_cleanupOldData split: prod.splits)

lemma quota_check_reason:
  "qr_reason (fst (QuotaManager_canSendError clk payloadSize qm)) =
     firstFailure (quotaChecks_spec (qm_config qm) payloadSize
        (length (qm_burstCounts (cleanupOldData clk qm)))
        (qm_dailyCount (cleanupOldData clk qm))
        (qm_monthlyCount (cleanupOldData clk qm)))"
  by (simp add: QuotaManager_canSendError_def QuotaManager_getStats_def Let_def
        cleanupOldData_idem cleanupBurstCounts_cleanupOldData cleanupOldData_config
        firstFailure_def quotaChecks_spec_def split: prod.splits)

lemma quota_check_allowed:
  "qr_allowed (fst (QuotaManager_canSendError clk payloadSize qm)) =
     (qr_reason (fst (QuotaManager_canSendError clk payloadSize qm)) = None)"
  by (simp add: QuotaManager_canSendError_def QuotaManager_getStats_def Let_def
        split: prod.splits)

lemma rate_check_state:
  "snd (RateLimiter_canSendError now e rl) = removeExpiredRequests now rl"
  by (simp add: RateLimiter_canSendError_def Let_def split: sum.splits)

text \<open>
  C5. The claim has the duplicate check first. In the source the window-count cap is
  checked first: with the window full the answer is "Rate limit exceeded" whatever the
  fingerprint, and "Duplicate error" is the answer exactly when the window has room and
  the fingerprint was seen within the duplicate window. The example is a full window
  that holds the very fingerprint of the report.
\<close>

theorem C5_cap_checked_before_duplicate:
  "(length (filter (\<lambda>t. t > now - windowMs (rl_config rl)) (rl_requests rl))
        \<ge> maxRequests (rl_config rl)
      \<longrightarrow> (\<exists>info. fst (RateLimiter_canSendError now e rl) = Inr info \<and> \<not> rli_allowed info
             \<and> rli_reason info = Some ''Rate limit exceeded''))
   \<and> ((\<exists>info. fst (RateLimiter_canSendError now e rl) = Inr info
             \<and> rli_reason info = Some ''Duplicate error'')
        \<longleftrightarrow> (length (filter (\<lambda>t. t > now - windowMs (rl_config rl)) (rl_requests rl))
               < maxRequests (rl_config rl)
             \<and> (\<exists>h. generateErrorHash e = Inr h
                    \<and> isDuplicate now (rl_errorHashes rl h)
                         (duplicateErrorWindow (rl_config rl)))))"
  by (auto simp: RateLimiter_canSendError_def removeExpiredRequests_def Let_def
        split: sum.splits)

theorem C5_witness:
  "length (filter (\<lambda>t. t > 2000 - windowMs (rl_config fullLimiter)) (rl_requests fullLimiter))
      \<ge> maxRequests (rl_config fullLimiter)
   \<and> (\<exists>info. fst (RateLimiter_canSendError 2000 exampleReport fullLimiter) = Inr info
          \<and> \<not> rli_allowed info \<and> rli_reason info = Some ''Rate limit exceeded'')"
proof -
  have full: "length (filter (\<lambda>t. t > 2000 - windowMs (rl_config fullLimiter))
                (rl_requests fullLimiter)) \<ge> maxRequests (rl_config fullLimiter)"
    by (simp add: fullLimiter_def)
  with C5_cap_checked_before_duplicate[where now=2000 and rl=fullLimiter and e=exampleReport]
  show ?thesis by blast
qed

theorem C5_counterexample:
  "generateErrorHash exampleReport = Inr exampleHash
   \<and> isDuplicate 2000 (rl_errorHashes fullLimiter exampleHash)
        (duplicateErrorWindow (rl_config fullLimiter))
   \<and> length (rl_requests (removeExpiredRequests 2000 fullLimiter))
        \<ge> maxRequests (rl_config fullLimiter)
   \<and> fst (RateLimiter_canSendError 2000 exampleReport fullLimiter) =
        Inr \<lparr>rli_allowed = False, rli_remaining = 0, rli_resetTime = 61000,
             rli_reason = Some ''Rate limit exceeded''\<rparr>"
  by (simp add: exampleHash_eq isDuplicate_def fullLimiter_def RateLimiter_canSendError_def
        removeExpiredRequests_def getNextResetTime_def Let_def)

section \<open>Admission in the pipeline\<close>

lemma prepareReport_monitor:
  "prepareReport pf (er\<lparr>er_sdkMonitor := m\<rparr>) e = prepareReport pf er e"
  by (simp add: prepareReport_def)

lemma capture_rate_denied:
  assumes "cfg_enabled (er_config er)" "er_isInitialized er"
    and "prepareReport pf er e = Inr fd"
    and "fst (RateLimiter_canSendError (clk_now clk) fd (er_rateLimiter er)) = Inr info"
    and "\<not> rli_allowed info"
  shows "captureException pf clk cs e er w =
     (er\<lparr>er_sdkMonitor :=
            trackSuppressedError (case rli_reason info of None \<Rightarrow> ''Rate limited'' | Some r \<Rightarrow> r)
              (trackError cs (er_sdkMonitor er)),
         er_rateLimiter := removeExpiredRequests (clk_now clk) (er_rateLimiter er)\<rparr>, w)"
proof -
  obtain rl1 where r:
    "RateLimiter_canSendError (clk_now clk) fd (er_rateLimiter er) = (Inr info, rl1)"
    using assms(4) by (cases "RateLimiter_canSendError (clk_now clk) fd (er_rateLimiter er)") simp
  have rl1: "rl1 = removeExpiredRequests (clk_now clk) (er_rateLimiter er)"
    using rate_check_state[of "clk_now clk" fd "er_rateLimiter er"] r by simp
  show ?thesis
    using assms(1,2,3,5) r rl1
    by (simp add: captureException_def prepareReport_monitor suppress_def Let_def)
qed

lemma capture_quota_denied:
  assumes "cfg_enabled (er_config er)" "er_isInitialized er"
    and "prepareReport pf er e = Inr fd"
    and "fst (RateLimiter_canSendError (clk_now clk) fd (er_rateLimiter er)) = Inr info"
    and "rli_allowed info"
    and "fst (QuotaManager_canSendError clk (payloadBytes pf fd) (er_quotaManager er)) = res"
    and "\<not> qr_allowed res"
  shows "captureException pf clk cs e er w =
     (er\<lparr>er_sdkMonitor :=
            trackSuppressedError (case qr_reason res of None \<Rightarrow> ''Quota exceeded'' | Some r \<Rightarrow> r)
              (trackError cs (er_sdkMonitor er)),
         er_rateLimiter := removeExpiredRequests (clk_now clk) (er_rateLimiter er),
         er_quotaManager := cleanupOldData clk (er_quotaManager er)\<rparr>, w)"
proof -
  obtain rl1 where r:
    "RateLimiter_canSendError (clk_now clk) fd (er_rateLimiter er) = (Inr info, rl1)"
    using assms(4) by (cases "RateLimiter_canSendError (clk_now clk) fd (er_rateLimiter er)") simp
  have rl1: "rl1 = removeExpiredRequests (clk_now clk) (er_rateLimiter er)"
    using rate_check_state[of "clk_now clk" fd "er_rateLimiter er"] r by simp
  obtain qm1 where q:
    "QuotaManager_canSendError clk (payloadBytes pf fd) (er_quotaManager er) = (res, qm1)"
    using assms(6)
    by (cases "QuotaManager_canSendError clk (payloadBytes pf fd) (er_quotaManager er)") simp
  have qm1: "qm1 = cleanupOldData clk (er_quotaManager er)"
    using quota_check_state[of clk "payloadBytes pf fd" "er_quotaManager er"] q by simp
  show ?thesis
    using assms(1,2,3,5,7) r rl1 q qm1
    by (simp add: captureException_def prepareReport_monitor suppress_def Let_def)
qed

lemma quota_oversize:
  assumes "payloadSize > payloadSizeLimit (qm_config qm)"
  shows "qr_reason (fst (QuotaManager_canSendError clk payloadSize qm)) =
           Some (payloadReason payloadSize (payloadSizeLimit (qm_config qm)))"
    and "\<not> qr_allowed (fst (QuotaManager_canSendError clk payloadSize qm))"
  using assms
  by (simp_all add: quota_check_reason quota_check_allowed firstFailure_def quotaChecks_spec_def)

text \<open>
  C4. The decision of \<open>QuotaManager.canSendError\<close> is the reason of the first failing
  limit in the order payload size, burst, daily, monthly, on the reconciled counters;
  the check leaves the manager reconciled and no counter larger than before. An
  oversize payload is refused with the payload reason whatever the counters hold, and a
  capture refused for it leaves the quota manager reconciled and the durable store as
  it was.
\<close>

theorem C4_first_failing_limit_wins:
  "qr_reason (fst (QuotaManager_canSendError clk payloadSize qm)) =
     firstFailure (quotaChecks_spec (qm_config qm) payloadSize
        (length (qm_burstCounts (cleanupOldData clk qm)))
        (qm_dailyCount (cleanupOldData clk qm))
        (qm_monthlyCount (cleanupOldData clk qm)))
   \<and> qr_allowed (fst (QuotaManager_canSendError clk payloadSize qm)) =
       (qr_reason (fst (QuotaManager_canSendError clk payloadSize qm)) = None)
   \<and> snd (QuotaManager_canSendError clk payloadSize qm) = cleanupOldData clk qm
   \<and> qm_dailyCount (snd (QuotaManager_canSendError clk payloadSize qm)) \<le> qm_dailyCount qm
   \<and> qm_monthlyCount (snd (QuotaManager_canSendError clk payloadSize qm)) \<le> qm_monthlyCount qm
   \<and> length (qm_burstCounts (snd (QuotaManager_canSendError clk payloadSize qm)))
        \<le> length (qm_burstCounts qm)
   \<and> (payloadSize > payloadSizeLimit (qm_config qm) \<longrightarrow>
        qr_reason (fst (QuotaManager_canSendError clk payloadSize qm)) =
          Some (payloadReason payloadSize (payloadSizeLimit (qm_config qm)))
        \<and> \<not> qr_allowed (fst (QuotaManager_canSendError clk payloadSize qm)))
   \<and> (cfg_enabled (er_config er) \<and> er_isInitialized er
        \<and> prepareReport pf er e = Inr fd
        \<and> fst (RateLimiter_canSendError (clk_now clk) fd (er_rateLimiter er)) = Inr info
        \<and> rli_allowed info
        \<and> payloadBytes pf fd > payloadSizeLimit (qm_config (er_quotaManager er)) \<longrightarrow>
        er_quotaManager (fst (captureException pf clk cs e er w))
          = cleanupOldData clk (er_quotaManager er)
        \<and> snd (captureException pf clk cs e er w) = w)"
proof -
  have pipeline:
    "er_quotaManager (fst (captureException pf clk cs e er w))
          = cleanupOldData clk (er_quotaManager er)
        \<and> snd (captureException pf clk cs e er w) = w"
    if a: "cfg_enabled (er_config er)" "er_isInitialized er"
        "prepareReport pf er e = Inr fd"
        "fst (RateLimiter_canSendError (clk_now clk) fd (er_rateLimiter er)) = Inr info"
        "rli_allowed info"
        "payloadBytes pf fd > payloadSizeLimit (qm_config (er_quotaManager er))"
  proof -
    have "\<not> qr_allowed (fst (QuotaManager_canSendError clk (payloadBytes pf fd) (er_quotaManager er)))"
      using quota_oversize(2)[OF a(6)] .
    from capture_quota_denied[where cs=cs and w=w, OF a(1,2,3,4,5) refl this]
    show ?thesis by simp
  qed
  show ?thesis
    using pipeline quota_oversize[of qm payloadSize clk]
    by (simp add: quota_check_reason quota_check_allowed quota_check_state
          cleanupOldData_counts)
qed

theorem C4_witness:
  "2000 > payloadSizeLimit (qm_config busyQuota)
   \<and> length (qm_burstCounts (cleanupOldData exampleClock busyQuota))
        \<ge> burstLimit (qm_config busyQuota)
   \<and> qm_dailyCount (cleanupOldData exampleClock busyQuota) \<ge> dailyLimit (qm_config busyQuota)
   \<and> qr_reason (fst (QuotaManager_canSendError exampleClock 2000 busyQuota)) =
        Some ''Payload size (2000) exceeds limit (1000)''
   \<and> \<not> qr_allowed (fst (QuotaManager_canSendError exampleClock 2000 busyQuota))
   \<and> qm_dailyCount (snd (QuotaManager_canSendError exampleClock 2000 busyQuota)) = 2"
proof -
  have big: "2000 > payloadSizeLimit (qm_config busyQuota)"
    by (simp add: busyQuota_def)
  have d: "decimal 2000 = ''2000''" "decimal 1000 = ''1000''"
    by code_simp+
  have c: "cleanupOldData exampleClock busyQuota = busyQuota"
    by (simp add: cleanupOldData_def cleanupBurstCounts_def busyQuota_def exampleClock_def)
  note t = C4_first_failing_limit_wins[where clk=exampleClock and payloadSize=2000
               and qm=busyQuota]
  have p: "qr_reason (fst (QuotaManager_canSendError exampleClock 2000 busyQuota)) =
             Some (payloadReason 2000 (payloadSizeLimit (qm_config busyQuota)))
           \<and> \<not> qr_allowed (fst (QuotaManager_canSendError exampleClock 2000 busyQuota))"
    using t[THEN conjunct2, THEN conjunct2, THEN conjunct2, THEN conjunct2, THEN conjunct2,
            THEN conjunct2, THEN conjunct1] big by blast
  have s: "snd (QuotaManager_canSendError exampleClock 2000 busyQuota)
             = cleanupOldData exampleClock busyQuota"
    using t[THEN conjunct2, THEN conjunct2, THEN conjunct1] .
  have r: "payloadReason 2000 (payloadSizeLimit (qm_config busyQuota))
             = ''Payload size (2000) exceeds limit (1000)''"
    by (simp add: payloadReason_def busyQuota_def d)
  show ?thesis
    using big p s r by (simp add: c) (simp add: busyQuota_def)
qed

lemma not_advanced_pruned:
  "\<not> advanced er (er\<lparr>er_sdkMonitor := m,
        er_rateLimiter := removeExpiredRequests now (er_rateLimiter er)\<rparr>)"
  by (simp add: advanced_def removeExpiredRequests_def not_less)

lemma not_advanced_cleaned:
  "\<not> advanced er (er\<lparr>er_sdkMonitor := m,
        er_rateLimiter := removeExpiredRequests now (er_rateLimiter er),
        er_quotaManager := cleanupOldData clk (er_quotaManager er)\<rparr>)"
  by (simp add: advanced_def removeExpiredRequests_def cleanupOldData_counts not_less)

lemma not_advanced_monitor: "\<not> advanced er (er\<lparr>er_sdkMonitor := m\<rparr>)"
  by (simp add: advanced_def)

lemma capture_advanced_admitted:
  assumes "advanced er (fst (captureException pf clk cs e er w))"
  shows "\<exists>fd info. prepareReport pf er e = Inr fd
           \<and> fst (RateLimiter_canSendError (clk_now clk) fd (er_rateLimiter er)) = Inr info
           \<and> rli_allowed info
           \<and> qr_allowed (fst (QuotaManager_canSendError clk (payloadBytes pf fd)
                                 (er_quotaManager er)))"
proof (cases "cfg_enabled (er_config er) \<and> er_isInitialized er")
  case False
  then have "captureException pf clk cs e er w = (er, w)"
    by (auto simp: captureException_def)
  with assms show ?thesis by (simp add: advanced_def)
next
  case on: True
  show ?thesis
  proof (cases "prepareReport pf er e")
    case (Inl reason)
    with on have "fst (captureException pf clk cs e er w) =
        er\<lparr>er_sdkMonitor := trackSuppressedError reason (trackError cs (er_sdkMonitor er))\<rparr>"
      by (simp add: captureException_def prepareReport_monitor suppress_def Let_def)
    with assms show ?thesis by (simp add: not_advanced_monitor)
  next
    case (Inr fd)
    show ?thesis
    proof (cases "fst (RateLimiter_canSendError (clk_now clk) fd (er_rateLimiter er))")
      case (Inl thrown)
      then obtain rl1 where r:
        "RateLimiter_canSendError (clk_now clk) fd (er_rateLimiter er) = (Inl thrown, rl1)"
        by (cases "RateLimiter_canSendError (clk_now clk) fd (er_rateLimiter er)") simp
      have rl1: "rl1 = removeExpiredRequests (clk_now clk) (er_rateLimiter er)"
        using rate_check_state[of "clk_now clk" fd "er_rateLimiter er"] r by simp
      have "fst (captureException pf clk cs e er w) =
          er\<lparr>er_sdkMonitor := trackPerformance ''captureException'' False
                                 (trackError cs (er_sdkMonitor er)),
             er_rateLimiter := removeExpiredRequests (clk_now clk) (er_rateLimiter er)\<rparr>"
        using on Inr r rl1
        by (simp add: captureException_def prepareReport_monitor perf_def Let_def)
      with assms show ?thesis by (simp add: not_advanced_pruned)
    next
      case info: (Inr info)
      show ?thesis
      proof (cases "rli_allowed info")
        case False
        from capture_rate_denied[where cs=cs and w=w, OF _ _ Inr info False] on assms
        show ?thesis by (simp add: not_advanced_pruned)
      next
        case allowed: True
        show ?thesis
        proof (cases "qr_allowed (fst (QuotaManager_canSendError clk (payloadBytes pf fd)
                                         (er_quotaManager er)))")
          case False
          from capture_quota_denied[where cs=cs and w=w, OF _ _ Inr info allowed refl False]
            on assms
          show ?thesis by (simp add: not_advanced_cleaned)
        next
          case True
          with Inr info allowed show ?thesis by blast
        qed
      qed
    qed
  qed
qed

lemma capture_denied_frame:
  assumes "cfg_enabled (er_config er)" "er_isInitialized er"
    and "prepareReport pf er e = Inr fd"
    and "fst (RateLimiter_canSendError (clk_now clk) fd (er_rateLimiter er)) = Inr info"
    and "\<not> rli_allowed info
         \<or> \<not> qr_allowed (fst (QuotaManager_canSendError clk (payloadBytes pf fd)
                                  (er_quotaManager er)))"
  shows "rl_errorHashes (er_rateLimiter (fst (captureException pf clk cs e er w)))
           = rl_errorHashes (er_rateLimiter er)
       \<and> rl_requests (er_rateLimiter (fst (captureException pf clk cs e er w)))
           = filter (\<lambda>t. t > clk_now clk - windowMs (rl_config (er_rateLimiter er)))
               (rl_requests (er_rateLimiter er))
       \<and> er_quotaManager (fst (captureException pf clk cs e er w))
           = (if rli_allowed info then cleanupOldData clk (er_quotaManager er)
              else er_quotaManager er)
       \<and> \<not> advanced er (fst (captureException pf clk cs e er w))
       \<and> snd (captureException pf clk cs e er w) = w"
proof (cases "rli_allowed info")
  case False
  from capture_rate_denied[where cs=cs and w=w, OF assms(1,2,3,4) False]
  show ?thesis using False
    by (simp add: not_advanced_pruned) (simp add: removeExpiredRequests_def)
next
  case True
  with assms(5) have "\<not> qr_allowed (fst (QuotaManager_canSendError clk (payloadBytes pf fd)
                                  (er_quotaManager er)))" by simp
  from capture_quota_denied[where cs=cs and w=w, OF assms(1,2,3,4) True refl this]
  show ?thesis using True
    by (simp add: not_advanced_cleaned) (simp add: removeExpiredRequests_def)
qed

text \<open>
  C2. A capture that the rate limiter or the quota manager refuses leaves the
  fingerprint map as it was, the admitted timestamps pruned of expired entries only,
  the quota manager untouched (refused by the rate limiter) or reconciled (refused by
  the quota manager: a count is reset when its day or month key rolled over, and is
  the same otherwise; the burst list is pruned), no counter advanced and the world
  unchanged. Conversely a counter advances only in a capture that both stages admit.
  The two checks themselves always end in the pruned, respectively reconciled, state.
\<close>

theorem C2_denied_check_advances_no_counter:
  "(cfg_enabled (er_config er) \<and> er_isInitialized er
      \<and> prepareReport pf er e = Inr fd
      \<and> fst (RateLimiter_canSendError (clk_now clk) fd (er_rateLimiter er)) = Inr info
      \<and> (\<not> rli_allowed info
           \<or> \<not> qr_allowed (fst (QuotaManager_canSendError clk (payloadBytes pf fd)
                                    (er_quotaManager er))))
     \<longrightarrow> rl_errorHashes (er_rateLimiter (fst (captureException pf clk cs e er w)))
           = rl_errorHashes (er_rateLimiter er)
       \<and> rl_requests (er_rateLimiter (fst (captureException pf clk cs e er w)))
           = filter (\<lambda>t. t > clk_now clk - windowMs (rl_config (er_rateLimiter er)))
               (rl_requests (er_rateLimiter er))
       \<and> er_quotaManager (fst (captureException pf clk cs e er w))
           = (if rli_allowed info then cleanupOldData clk (er_quotaManager er)
              else er_quotaManager er)
       \<and> \<not> advanced er (fst (captureException pf clk cs e er w))
       \<and> snd (captureException pf clk cs e er w) = w)
   \<and> (advanced er (fst (captureException pf clk cs e er w))
       \<longrightarrow> (\<exists>fd info. prepareReport pf er e = Inr fd
             \<and> fst (RateLimiter_canSendError (clk_now clk) fd (er_rateLimiter er)) = Inr info
             \<and> rli_allowed info
             \<and> qr_allowed (fst (QuotaManager_canSendError clk (payloadBytes pf fd)
                                   (er_quotaManager er)))))
   \<and> snd (RateLimiter_canSendError now e rl) = removeExpiredRequests now rl
   \<and> rl_errorHashes (removeExpiredRequests now rl) = rl_errorHashes rl
   \<and> rl_requests (removeExpiredRequests now rl)
        = filter (\<lambda>t. t > now - windowMs (rl_config rl)) (rl_requests rl)
   \<and> snd (QuotaManager_canSendError clk payloadSize qm) = cleanupOldData clk qm
   \<and> qm_dailyCount (cleanupOldData clk qm) =
        (if clk_dateKey clk \<noteq> qm_lastResetDate qm then 0 else qm_dailyCount qm)
   \<and> qm_monthlyCount (cleanupOldData clk qm) =
        (if clk_monthKey clk \<noteq> qm_lastResetMonth qm then 0 else qm_monthlyCount qm)
   \<and> qm_burstCounts (cleanupOldData clk qm) =
        filter (\<lambda>t. t > clk_now clk - burstWindowMs (qm_config qm)) (qm_burstCounts qm)"
  using capture_denied_frame[of er pf e fd clk info cs w]
    capture_advanced_admitted[of er pf clk cs e w]
  by (simp add: rate_check_state quota_check_state cleanupOldData_counts)
     (simp add: removeExpiredRequests_def)

lemma exampleReport_prepared:
  assumes "er_securityValidator er = er_securityValidator exampleReporter"
    and "cfg_beforeSend (er_config er) = None"
  shows "prepareReport examplePlatform er exampleReport = Inr exampleReport"
proof -
  have 1: "sanitizeText defaultSensitivePatterns (js ''Test error'') = js ''Test error''"
    by code_simp
  have 2: "sanitizeText defaultSensitivePatterns (js ''Error: Test error at test.js:1:1'')
             = js ''Error: Test error at test.js:1:1''"
    by code_simp
  have 3: "js ''Test error'' \<noteq> []" "js ''Error: Test error at test.js:1:1'' \<noteq> []"
    "js ''test-project'' \<noteq> []" "js ''2024-01-01T00:00:00.000Z'' \<noteq> []"
    by (simp_all add: js_def)
  show ?thesis
    using assms
    by (simp add: prepareReport_def validatePayload_def examplePlatform_def exampleReporter_def
         exampleReport_def sanitizeErrorData_def Let_def 1 2 3)
       (simp add: js_def)
qed

theorem C2_witness:
  "prepareReport examplePlatform seenReporter exampleReport = Inr exampleReport
   \<and> fst (RateLimiter_canSendError (clk_now exampleClock) exampleReport
            (er_rateLimiter seenReporter))
       = Inr \<lparr>rli_allowed = False, rli_remaining = 9, rli_resetTime = 61000,
              rli_reason = Some ''Duplicate error''\<rparr>
   \<and> rl_errorHashes (er_rateLimiter (fst (captureException examplePlatform exampleClock False
         exampleReport seenReporter failingWorld))) = [exampleHash \<mapsto> 1000]
   \<and> rl_requests (er_rateLimiter (fst (captureException examplePlatform exampleClock False
         exampleReport seenReporter failingWorld))) = [1000]
   \<and> er_quotaManager (fst (captureException examplePlatform exampleClock False
         exampleReport seenReporter failingWorld)) = er_quotaManager exampleReporter
   \<and> snd (captureException examplePlatform exampleClock False exampleReport seenReporter
         failingWorld) = failingWorld"
proof -
  have on: "cfg_enabled (er_config seenReporter)" "er_isInitialized seenReporter"
    by (simp_all add: seenReporter_def exampleReporter_def)
  have p: "prepareReport examplePlatform seenReporter exampleReport = Inr exampleReport"
    by (rule exampleReport_prepared) (simp_all add: seenReporter_def exampleReporter_def)
  have r: "fst (RateLimiter_canSendError (clk_now exampleClock) exampleReport
            (er_rateLimiter seenReporter))
       = Inr \<lparr>rli_allowed = False, rli_remaining = 9, rli_resetTime = 61000,
              rli_reason = Some ''Duplicate error''\<rparr>"
    by (simp add: RateLimiter_canSendError_def removeExpiredRequests_def seenReporter_def
          exampleClock_def exampleHash_eq isDuplicate_def getNextResetTime_def Let_def)
  note t = C2_denied_check_advances_no_counter[where er=seenReporter and pf=examplePlatform
      and e=exampleReport and fd=exampleReport and clk=exampleClock and cs=False
      and w=failingWorld
      and info="\<lparr>rli_allowed = False, rli_remaining = 9, rli_resetTime = 61000,
              rli_reason = Some ''Duplicate error''\<rparr>", THEN conjunct1]
  from t on p r show ?thesis
    by (simp add: seenReporter_def exampleClock_def)
qed

section \<open>Retry and teardown\<close>

lemma shouldNotRetry_notFound: "shouldNotRetry notFound"
  by (simp add: shouldNotRetry_def notFound_def)

lemma nonretryable_stops_after_one:
  assumes "operation w = (Inl e, w1)" and "shouldNotRetry e"
  shows "executeWithRetry config operation w = (retryFailure config (Some e), w1)"
  using assms by (simp add: executeWithRetry_def retryLoop.simps[of config operation 0])

text \<open>
  C6. With \<open>maxRetries = 3\<close> and an operation that always throws
  "Request failed with status code 404", \<open>executeWithRetry\<close> classifies the error as
  not retryable and invokes the operation once (the count is 1 afterwards), and the
  result has \<open>success = false\<close>; but its \<open>attempts\<close> field is \<open>maxRetries + 1 = 4\<close>,
  not the one invocation performed.
\<close>

theorem C6_attempts_overcounted:
  "shouldNotRetry notFound
   \<and> executeWithRetry (er_retryManager exampleReporter) (countingOp notFound) 0 =
       (\<lparr>rr_success = False, rr_result = None, rr_error = Some notFound, rr_attempts = 4\<rparr>, 1)"
  using nonretryable_stops_after_one[of "countingOp notFound" 0 notFound 1
          "er_retryManager exampleReporter"]
  by (simp add: shouldNotRetry_notFound countingOp_def retryFailure_def exampleReporter_def)

lemma retryLoop_preserves:
  assumes "\<And>w. f (snd (operation w)) = f w"
  shows "f (snd (retryLoop config operation attempt lastError w)) = f w"
  using assms
proof (induction config operation attempt lastError w rule: retryLoop.induct)
  case (1 config operation attempt lastError w)
  obtain r w1 where op: "operation w = (r, w1)" by (cases "operation w")
  have w1: "f w1 = f w" using "1.prems"[of w] op by simp
  show ?case
  proof (cases r)
    case (Inr v)
    with op w1 show ?thesis by (subst retryLoop.simps) simp
  next
    case (Inl e)
    show ?thesis
    proof (cases "attempt \<le> rc_maxRetries config \<and> attempt \<noteq> rc_maxRetries config
                   \<and> \<not> shouldNotRetry e")
      case True
      then have "f (snd (retryLoop config operation (attempt + 1) (Some e) w1)) = f w1"
        using "1.IH"[OF _ op[symmetric] Inl] "1.prems" by simp
      with True op Inl w1 show ?thesis by (subst retryLoop.simps) simp
    next
      case False
      with op Inl w1 show ?thesis by (subst retryLoop.simps) auto
    qed
  qed
qed

lemma sendWithCompression_storage:
  "w_storage (snd (sendWithCompression data w)) = w_storage w"
  by (simp add: sendWithCompression_def Let_def split: option.splits)

lemma sendBatchDirectly_storage:
  "w_storage (snd (sendBatchDirectly rc b w)) = w_storage w"
  using retryLoop_preserves[of w_storage "sendWithCompression (Batch b)" rc 0 None w]
  by (simp add: sendBatchDirectly_def executeWithRetry_def sendWithCompression_storage
        Let_def case_prod_beta)

lemma BatchManager_destroy_storage:
  "w_storage (snd (BatchManager_destroy (sendBatchDirectly rc) now bm w)) = w_storage w"
  by (simp add: BatchManager_destroy_def BatchManager_flush_def sendCurrentBatch_def Let_def
        case_prod_beta sendBatchDirectly_storage split: sum.splits)

lemma keys_differ: "quotaStorageKey \<noteq> offlineStorageKey"
  by (simp add: quotaStorageKey_def offlineStorageKey_def)

lemma OfflineManager_destroy_storage:
  "ls_available (w_storage (snd (OfflineManager_destroy om w))) = ls_available (w_storage w)"
  "ls_accepts (w_storage (snd (OfflineManager_destroy om w))) = ls_accepts (w_storage w)"
  by (simp_all add: OfflineManager_destroy_def clearQueue_def saveQueueToStorage_def setItem_def
        Let_def)

lemma QuotaManager_destroy_result:
  "qm_dailyCount (fst (QuotaManager_destroy qm ls)) = 0"
  "qm_monthlyCount (fst (QuotaManager_destroy qm ls)) = 0"
  "qm_burstCounts (fst (QuotaManager_destroy qm ls)) = []"
  "ls_available ls \<Longrightarrow> ls_accepts ls \<Longrightarrow>
     ls_items (snd (QuotaManager_destroy qm ls)) quotaStorageKey = Some (zeroLedger qm)"
  "ls_available (snd (QuotaManager_destroy qm ls)) = ls_available ls"
  by (simp_all add: QuotaManager_destroy_def resetQuotas_def QuotaManager_saveToStorage_def
        setItem_def zeroLedger_def Let_def)

lemma destroy_quota:
  "er_quotaManager (fst (ErrorReporter_destroy now er w))
     = fst (QuotaManager_destroy (er_quotaManager er)
              (w_storage (snd (OfflineManager_destroy (er_offlineManager er) w))))"
  by (simp add: ErrorReporter_destroy_def Let_def case_prod_beta)

lemma destroy_storage:
  "w_storage (snd (ErrorReporter_destroy now er w))
     = snd (QuotaManager_destroy (er_quotaManager er)
              (w_storage (snd (OfflineManager_destroy (er_offlineManager er) w))))"
  by (simp add: ErrorReporter_destroy_def Let_def case_prod_beta BatchManager_destroy_storage)

lemma new_after_zero:
  assumes "ls_available ls" and "ls_items ls quotaStorageKey = Some (zeroLedger qm)"
  shows "qm_dailyCount (QuotaManager_new config clk ls) = 0"
    and "qm_monthlyCount (QuotaManager_new config clk ls) = 0"
    and "qm_burstCounts (QuotaManager_new config clk ls) = []"
  using assms
  by (simp_all add: QuotaManager_new_def QuotaManager_loadFromStorage_def zeroLedger_def)

lemma new_after_recordUsage:
  assumes "ls_available ls" and "ls_accepts ls"
  shows "qm_dailyCount (QuotaManager_new config clk' (snd (recordUsage clk sz qm ls)))
           = qm_dailyCount (fst (recordUsage clk sz qm ls))"
    and "qm_monthlyCount (QuotaManager_new config clk' (snd (recordUsage clk sz qm ls)))
           = qm_monthlyCount (fst (recordUsage clk sz qm ls))"
    and "qm_burstCounts (QuotaManager_new config clk' (snd (recordUsage clk sz qm ls)))
           = qm_burstCounts (fst (recordUsage clk sz qm ls))"
    and "qm_dailyCount (fst (recordUsage clk sz qm ls)) > 0"
  using assms
  by (simp_all add: QuotaManager_new_def QuotaManager_loadFromStorage_def recordUsage_def
        QuotaManager_saveToStorage_def setItem_def Let_def)

text \<open>
  C10. \<open>ErrorReporter.destroy\<close> leaves the quota manager with the daily and monthly
  counts at zero and no burst timestamp, and, where the durable store is available and
  accepts the write, the store holds the zeroed ledger under the quota key when
  \<open>destroy\<close> returns: a quota manager constructed from that store starts from
  zero. The ledger written by \<open>recordUsage\<close>, in contrast, is read back by the
  constructor with the counts it had.
\<close>

theorem C10_destroy_erases_quota_ledger:
  "qm_dailyCount (er_quotaManager (fst (ErrorReporter_destroy now er w))) = 0
   \<and> qm_monthlyCount (er_quotaManager (fst (ErrorReporter_destroy now er w))) = 0
   \<and> qm_burstCounts (er_quotaManager (fst (ErrorReporter_destroy now er w))) = []
   \<and> (ls_available (w_storage w) \<and> ls_accepts (w_storage w) \<longrightarrow>
        ls_items (w_storage (snd (ErrorReporter_destroy now er w))) quotaStorageKey
          = Some (zeroLedger (er_quotaManager er))
        \<and> qm_dailyCount (QuotaManager_new config clk
             (w_storage (snd (ErrorReporter_destroy now er w)))) = 0
        \<and> qm_monthlyCount (QuotaManager_new config clk
             (w_storage (snd (ErrorReporter_destroy now er w)))) = 0
        \<and> qm_burstCounts (QuotaManager_new config clk
             (w_storage (snd (ErrorReporter_destroy now er w)))) = [])
   \<and> (ls_available ls \<and> ls_accepts ls \<longrightarrow>
        qm_dailyCount (QuotaManager_new config clk (snd (recordUsage clk0 sz qm ls)))
          = qm_dailyCount (fst (recordUsage clk0 sz qm ls))
        \<and> qm_monthlyCount (QuotaManager_new config clk (snd (recordUsage clk0 sz qm ls)))
          = qm_monthlyCount (fst (recordUsage clk0 sz qm ls))
        \<and> qm_burstCounts (QuotaManager_new config clk (snd (recordUsage clk0 sz qm ls)))
          = qm_burstCounts (fst (recordUsage clk0 sz qm ls))
        \<and> qm_dailyCount (fst (recordUsage clk0 sz qm ls)) > 0)"
proof -
  let ?w1 = "snd (OfflineManager_destroy (er_offlineManager er) w)"
  have stored: "ls_items (w_storage (snd (ErrorReporter_destroy now er w))) quotaStorageKey
          = Some (zeroLedger (er_quotaManager er))
      \<and> ls_available (w_storage (snd (ErrorReporter_destroy now er w)))"
    if "ls_available (w_storage w)" "ls_accepts (w_storage w)"
    using that QuotaManager_destroy_result(4,5)[where ls="w_storage ?w1"
                 and qm="er_quotaManager er"]
    by (simp add: destroy_storage OfflineManager_destroy_storage)
  show ?thesis
    using stored new_after_zero[where ls="w_storage (snd (ErrorReporter_destroy now er w))"
            and qm="er_quotaManager er" and config=config and clk=clk]
      new_after_recordUsage(1,2,3)[where ls=ls and clk=clk0 and sz=sz and qm=qm
            and config=config and clk'=clk]
      new_after_recordUsage(4)[where ls=ls and clk=clk0 and sz=sz and qm=qm]
    by (simp add: destroy_quota QuotaManager_destroy_result)
qed

theorem C10_witness:
  "qm_dailyCount (QuotaManager_new (qm_config usedQuota) exampleClock (w_storage usedWorld)) = 7
   \<and> ls_available (w_storage usedWorld) \<and> ls_accepts (w_storage usedWorld)
   \<and> ls_items (w_storage (snd (ErrorReporter_destroy 2000
          (exampleReporter\<lparr>er_quotaManager := usedQuota\<rparr>) usedWorld))) quotaStorageKey
        = Some (StoredQuota \<lparr>qd_dailyCount = 0, qd_monthlyCount = 0, qd_burstCounts = [],
                   qd_lastResetDate = ''2024-01-01'', qd_lastResetMonth = ''2024-01''\<rparr>)
   \<and> qm_dailyCount (QuotaManager_new (qm_config usedQuota) exampleClock
        (w_storage (snd (ErrorReporter_destroy 2000
          (exampleReporter\<lparr>er_quotaManager := usedQuota\<rparr>) usedWorld)))) = 0"
proof -
  have a: "ls_available (w_storage usedWorld) \<and> ls_accepts (w_storage usedWorld)"
    by (simp add: usedWorld_def)
  have b: "qm_dailyCount (QuotaManager_new (qm_config usedQuota) exampleClock
             (w_storage usedWorld)) = 7"
    by (simp add: QuotaManager_new_def QuotaManager_loadFromStorage_def usedWorld_def)
  have z: "zeroLedger usedQuota =
      StoredQuota \<lparr>qd_dailyCount = 0, qd_monthlyCount = 0, qd_burstCounts = [],
                   qd_lastResetDate = ''2024-01-01'', qd_lastResetMonth = ''2024-01''\<rparr>"
    by (simp add: zeroLedger_def usedQuota_def exampleReporter_def)
  from C10_destroy_erases_quota_ledger[where now=2000
      and er="exampleReporter\<lparr>er_quotaManager := usedQuota\<rparr>" and w=usedWorld
      and config="qm_config usedQuota" and clk=exampleClock, THEN conjunct2, THEN conjunct2,
      THEN conjunct2, THEN conjunct1] a b z
  show ?thesis by simp
qed

section \<open>The offline queue\<close>






lemma flush_spec_attempts: "list_all (\<lambda>item. qi_attempts item < 3) (flush_spec ps)"
  by (auto simp: flush_spec_def list_all_iff afterSend_def removedByFlush_def)

lemma flush_spec_timestamps:
  "list_all (\<lambda>item. qi_timestamp item \<le> now) (map fst ps)
   \<Longrightarrow> list_all (\<lambda>item. qi_timestamp item \<le> now) (flush_spec ps)"
  by (auto simp: flush_spec_def list_all_iff afterSend_def)












section \<open>The fingerprint\<close>







section \<open>Redaction\<close>










section \<open>Dispatch: delivery and the offline queue\<close>

lemma delivered_iff:
  "delivered w w' p \<longleftrightarrow>
     (\<exists>k. length (w_posts w) \<le> k \<and> k < length (w_posts w') \<and> w_posts w' ! k = p
          \<and> w_respond w' k = None)"
  by (auto simp: delivered_def list_ex_iff)

lemma noneAccepted_iff:
  "noneAccepted w w' \<longleftrightarrow>
     (\<forall>k. length (w_posts w) \<le> k \<and> k < length (w_posts w') \<longrightarrow> w_respond w' k \<noteq> None)"
  by (auto simp: noneAccepted_def list_all_iff)

lemma delivered_not_noneAccepted: "delivered w w' p \<Longrightarrow> \<not> noneAccepted w w'"
  by (auto simp: delivered_iff noneAccepted_iff)

text \<open>The retry loop around a POST: the world only gains POSTs of the payload.\<close>

lemma retryLoop_post:
  "\<exists>n. snd (retryLoop rc (sendWithCompression p) attempt le w)
          = w\<lparr>w_posts := w_posts w @ replicate n p\<rparr>
     \<and> (if rr_success (fst (retryLoop rc (sendWithCompression p) attempt le w))
         then delivered w (w\<lparr>w_posts := w_posts w @ replicate n p\<rparr>) p
         else noneAccepted w (w\<lparr>w_posts := w_posts w @ replicate n p\<rparr>))"
proof (induction rc "sendWithCompression p" attempt le w rule: retryLoop.induct)
  case (1 config attempt lastError w)
  let ?w1 = "w\<lparr>w_posts := w_posts w @ [p]\<rparr>"
  show ?case
  proof (cases "attempt \<le> rc_maxRetries config")
    case False
    then have "retryLoop config (sendWithCompression p) attempt lastError w
                 = (retryFailure config lastError, w)"
      by (subst retryLoop.simps) simp
    then show ?thesis
      by (intro exI[of _ 0]) (auto simp: retryFailure_def noneAccepted_iff)
  next
    case le: True
    show ?thesis
    proof (cases "w_respond w (length (w_posts w))")
      case None
      then have "retryLoop config (sendWithCompression p) attempt lastError w
                 = (\<lparr>rr_success = True, rr_result = Some (), rr_error = None,
                      rr_attempts = attempt + 1\<rparr>, ?w1)"
        using le by (subst retryLoop.simps) (simp add: sendWithCompression_def Let_def)
      then show ?thesis
        using None by (intro exI[of _ 1]) (auto simp: delivered_iff nth_append)
    next
      case (Some err)
      then have op: "sendWithCompression p w = (Inl err, ?w1)"
        by (simp add: sendWithCompression_def Let_def)
      have rej: "noneAccepted w ?w1"
        using Some by (auto simp: noneAccepted_iff less_Suc_eq)
      show ?thesis
      proof (cases "attempt = rc_maxRetries config \<or> shouldNotRetry err")
        case True
        then have "retryLoop config (sendWithCompression p) attempt lastError w
                 = (retryFailure config (Some err), ?w1)"
          using le op by (subst retryLoop.simps) auto
        then show ?thesis
          using rej by (intro exI[of _ 1]) (auto simp: retryFailure_def)
      next
        case False
        then have step: "retryLoop config (sendWithCompression p) attempt lastError w
                 = retryLoop config (sendWithCompression p) (attempt + 1) (Some err) ?w1"
          using le op by (subst retryLoop.simps) auto
        from "1.hyps"[OF le op[symmetric] refl] False
        obtain n where n:
          "snd (retryLoop config (sendWithCompression p) (attempt + 1) (Some err) ?w1)
             = ?w1\<lparr>w_posts := w_posts ?w1 @ replicate n p\<rparr>"
          "if rr_success (fst (retryLoop config (sendWithCompression p) (attempt + 1)
                                  (Some err) ?w1))
           then delivered ?w1 (?w1\<lparr>w_posts := w_posts ?w1 @ replicate n p\<rparr>) p
           else noneAccepted ?w1 (?w1\<lparr>w_posts := w_posts ?w1 @ replicate n p\<rparr>)"
          by auto
        have eqw: "?w1\<lparr>w_posts := w_posts ?w1 @ replicate n p\<rparr>
                     = w\<lparr>w_posts := w_posts w @ replicate (Suc n) p\<rparr>"
          by simp
        have d: "delivered ?w1 w2 p \<Longrightarrow> delivered w w2 p" for w2
          unfolding delivered_iff by (simp, metis Suc_leD)
        have r: "noneAccepted ?w1 (w\<lparr>w_posts := w_posts w @ replicate (Suc n) p\<rparr>)
                   \<Longrightarrow> noneAccepted w (w\<lparr>w_posts := w_posts w @ replicate (Suc n) p\<rparr>)"
          unfolding noneAccepted_iff using Some
          by (simp, metis Suc_leI le_neq_implies_less)
        show ?thesis
          using n d r unfolding step eqw
          by (intro exI[of _ "Suc n"]) (auto split: if_splits)
      qed
    qed
  qed
qed

lemma sendErrorDirectly_outcome:
  "\<exists>n. snd (sendErrorDirectly rc e w) = w\<lparr>w_posts := w_posts w @ replicate n (Single e)\<rparr>
     \<and> (case fst (sendErrorDirectly rc e w) of
          Inr u \<Rightarrow> delivered w (snd (sendErrorDirectly rc e w)) (Single e)
        | Inl err \<Rightarrow> noneAccepted w (snd (sendErrorDirectly rc e w)))"
proof -
  obtain n where n:
    "snd (retryLoop rc (sendWithCompression (Single e)) 0 None w)
          = w\<lparr>w_posts := w_posts w @ replicate n (Single e)\<rparr>"
    "if rr_success (fst (retryLoop rc (sendWithCompression (Single e)) 0 None w))
     then delivered w (w\<lparr>w_posts := w_posts w @ replicate n (Single e)\<rparr>) (Single e)
     else noneAccepted w (w\<lparr>w_posts := w_posts w @ replicate n (Single e)\<rparr>)"
    using retryLoop_post[of rc "Single e" 0 None w] by auto
  show ?thesis
    using n
    by (intro exI[of _ n])
       (auto simp: sendErrorDirectly_def executeWithRetry_def case_prod_beta Let_def
             split: if_splits)
qed

lemma sort_key_snoc:
  "\<forall>x\<in>set xs. f x \<le> f y \<Longrightarrow> sort_key f (xs @ [y]) = sort_key f xs @ [y]"
proof (induction xs)
  case Nil
  then show ?case by simp
next
  case (Cons x xs)
  then have ih: "sort_key f (xs @ [y]) = sort_key f xs @ [y]" and xy: "f x \<le> f y"
    by simp_all
  have "insort_key f x (zs @ [y]) = insort_key f x zs @ [y]" for zs
    using xy by (induction zs) auto
  with ih show ?case by simp
qed

lemma last_sliceLast:
  assumes "xs \<noteq> []"
  shows "sliceLast n xs \<noteq> [] \<and> last (sliceLast n xs) = last xs"
proof (cases "n = 0")
  case True
  with assms show ?thesis by (simp add: sliceLast_def)
next
  case False
  with assms have "length xs - n < length xs" by (cases xs) auto
  with False show ?thesis by (simp add: sliceLast_def)
qed

lemma queueError_outcome:
  assumes "list_all (\<lambda>item. qi_timestamp item \<le> now) (om_queue om)"
  shows "queuedLast now e w (fst (queueError now e om w))"
    and "w_posts (snd (queueError now e om w)) = w_posts w"
    and "w_respond (snd (queueError now e om w)) = w_respond w"
    and "ls_available (w_storage w) \<Longrightarrow> ls_accepts (w_storage w) \<Longrightarrow>
         ls_items (w_storage (snd (queueError now e om w))) offlineStorageKey
           = Some (StoredQueue (om_queue (fst (queueError now e om w))))"
proof -
  let ?item = "\<lparr>qi_id = w_random w (w_drawn w), qi_errorData = e, qi_timestamp = now,
                 qi_attempts = 0\<rparr>"
  let ?q = "filter (\<lambda>item. qi_timestamp item > now - om_maxAge om) (om_queue om)"
  have le: "\<forall>x\<in>set ?q. qi_timestamp x \<le> qi_timestamp ?item"
    using assms by (auto simp: list_all_iff)
  have s: "sort_key qi_timestamp (?q @ [?item]) = sort_key qi_timestamp ?q @ [?item]"
    using sort_key_snoc[OF le] .
  have l: "sliceLast n (sort_key qi_timestamp ?q @ [?item]) \<noteq> []
           \<and> last (sliceLast n (sort_key qi_timestamp ?q @ [?item])) = ?item" for n
    using last_sliceLast[of "sort_key qi_timestamp ?q @ [?item]" n] by simp
  show "queuedLast now e w (fst (queueError now e om w))"
    using l[of "om_maxQueueSize om"]
    by (simp add: queuedLast_def queueError_def generateId_def cleanupQueue_def
          case_prod_beta Let_def s)
  show "w_posts (snd (queueError now e om w)) = w_posts w"
    "w_respond (snd (queueError now e om w)) = w_respond w"
    by (simp_all add: queueError_def generateId_def saveQueueToStorage_def case_prod_beta Let_def)
  show "ls_items (w_storage (snd (queueError now e om w))) offlineStorageKey
           = Some (StoredQueue (om_queue (fst (queueError now e om w))))"
    if "ls_available (w_storage w)" "ls_accepts (w_storage w)"
    using that
    by (simp add: queueError_def generateId_def saveQueueToStorage_def setItem_def
          case_prod_beta Let_def)
qed

lemma noneAccepted_same:
  "w_posts w2 = w_posts w1 \<Longrightarrow> w_respond w2 = w_respond w1
     \<Longrightarrow> noneAccepted w w2 = noneAccepted w w1"
  by (simp add: noneAccepted_def)

lemma handleError_outcome:
  assumes "list_all (\<lambda>item. qi_timestamp item \<le> now) (om_queue om)"
  shows "(delivered w (snd (handleError (sendErrorDirectly rc) now e om w)) (Single e)
          \<and> fst (handleError (sendErrorDirectly rc) now e om w) = om)
       \<or> (noneAccepted w (snd (handleError (sendErrorDirectly rc) now e om w))
          \<and> queuedLast now e w (fst (handleError (sendErrorDirectly rc) now e om w))
          \<and> (ls_available (w_storage w) \<and> ls_accepts (w_storage w) \<longrightarrow>
               ls_items (w_storage (snd (handleError (sendErrorDirectly rc) now e om w)))
                  offlineStorageKey
                 = Some (StoredQueue
                          (om_queue (fst (handleError (sendErrorDirectly rc) now e om w))))))"
proof (cases "om_isOnline om \<and> om_hasSendFunction om")
  case False
  then have h: "handleError (sendErrorDirectly rc) now e om w = queueError now e om w"
    by (auto simp: handleError_def)
  have "noneAccepted w (snd (queueError now e om w))"
    using queueError_outcome(2)[OF assms, where e=e and w=w]
    by (simp add: noneAccepted_def)
  then show ?thesis
    unfolding h using queueError_outcome(1,4)[OF assms, where e=e and w=w] by simp
next
  case True
  obtain r w1 where s: "sendErrorDirectly rc e w = (r, w1)"
    by (cases "sendErrorDirectly rc e w")
  from sendErrorDirectly_outcome[of rc e w] obtain n where
    n0: "snd (sendErrorDirectly rc e w) = w\<lparr>w_posts := w_posts w @ replicate n (Single e)\<rparr>"
    and o0: "case fst (sendErrorDirectly rc e w) of
               Inr u \<Rightarrow> delivered w (snd (sendErrorDirectly rc e w)) (Single e)
             | Inl err \<Rightarrow> noneAccepted w (snd (sendErrorDirectly rc e w))"
    by blast
  have n: "w1 = w\<lparr>w_posts := w_posts w @ replicate n (Single e)\<rparr>"
    using n0 s by simp
  have o: "case r of Inr u \<Rightarrow> delivered w w1 (Single e) | Inl err \<Rightarrow> noneAccepted w w1"
    using o0 s by (cases r) simp_all
  show ?thesis
  proof (cases r)
    case (Inr u)
    with True s o show ?thesis by (simp add: handleError_def)
  next
    case (Inl err)
    then have h: "handleError (sendErrorDirectly rc) now e om w = queueError now e om w1"
      using True s by (simp add: handleError_def)
    have na: "noneAccepted w (snd (queueError now e om w1))"
      using o Inl noneAccepted_same[OF queueError_outcome(2,3)[OF assms, where e=e and w=w1],
              of w]
      by simp
    have q: "queuedLast now e w (fst (queueError now e om w1))"
      using queueError_outcome(1)[OF assms, where e=e and w=w1] n by (simp add: queuedLast_def)
    have p: "ls_items (w_storage (snd (queueError now e om w1))) offlineStorageKey
           = Some (StoredQueue (om_queue (fst (queueError now e om w1))))"
      if "ls_available (w_storage w)" "ls_accepts (w_storage w)"
      using queueError_outcome(4)[OF assms, where e=e and w=w1] that n by simp
    show ?thesis unfolding h using na q p by simp
  qed
qed

lemma canExecute_not_open:
  "fst (canExecute now cb) \<Longrightarrow> cb_state (snd (canExecute now cb)) \<noteq> OPEN"
  by (cases "cb_state cb") (auto simp: canExecute_def split: if_splits)

lemma sendError_unbatched:
  assumes "\<not> cfg_enableBatching (er_config er)" and "cfg_enableOfflineSupport (er_config er)"
  shows "fst (sendError pf now e er w) = Inr ()"
    and "er_offlineManager (fst (snd (sendError pf now e er w)))
           = fst (handleError (sendErrorDirectly (er_retryManager er)) now e
                    (er_offlineManager er) w)"
    and "snd (snd (sendError pf now e er w))
           = snd (handleError (sendErrorDirectly (er_retryManager er)) now e
                    (er_offlineManager er) w)"
    and "er_sdkMonitor (fst (snd (sendError pf now e er w))) = er_sdkMonitor er"
    and "er_rateLimiter (fst (snd (sendError pf now e er w))) = er_rateLimiter er"
    and "er_quotaManager (fst (snd (sendError pf now e er w))) = er_quotaManager er"
proof -
  show "fst (sendError pf now e er w) = Inr ()"
    "er_offlineManager (fst (snd (sendError pf now e er w)))
           = fst (handleError (sendErrorDirectly (er_retryManager er)) now e
                    (er_offlineManager er) w)"
    "snd (snd (sendError pf now e er w))
           = snd (handleError (sendErrorDirectly (er_retryManager er)) now e
                    (er_offlineManager er) w)"
    "er_sdkMonitor (fst (snd (sendError pf now e er w))) = er_sdkMonitor er"
    "er_rateLimiter (fst (snd (sendError pf now e er w))) = er_rateLimiter er"
    "er_quotaManager (fst (snd (sendError pf now e er w))) = er_quotaManager er"
    using assms canExecute_not_open[of now "er_circuitBreaker er"]
    by (auto simp: sendError_def CircuitBreaker_execute_def guardedSend_def case_prod_beta
          Let_def)
qed

end
